theory Spec2Isabelle
  imports Complex_Main "HOL-Library.Sublist"
begin

chapter \<open>Definitions\<close>

section \<open>Python values used by the services\<close>

text \<open>
  Python strings are \<^typ>\<open>string\<close>. The value of a Python float or Decimal is an exact
  \<^typ>\<open>real\<close> number: rounding, infinities and NaN are not modelled. A point in time
  (\<^verbatim>\<open>datetime\<close>) is a number of seconds, an \<^typ>\<open>int\<close>. A nullable column is an
  \<^typ>\<open>'a option\<close>. A database table is the list of its rows, and a model instance is a
  record holding the columns the modelled functions read or write.
\<close>

datatype error =
    NameError | AttributeError | KeyError | TypeError | ValueError
  | ZeroDivisionError | InvalidOperation | ValidationError
  | RelatedObjectDoesNotExist | DoesNotExist | MultipleObjectsReturned

text \<open>\<^verbatim>\<open>sub in s\<close> for two Python strings: \<open>sub\<close> occurs in \<open>s\<close> as a contiguous run.\<close>

primrec str_contains :: "string \<Rightarrow> string \<Rightarrow> bool" where
  "str_contains [] sub = (sub = [])"
| "str_contains (c # cs) sub = (prefix sub (c # cs) \<or> str_contains cs sub)"

text \<open>Truth value of a nullable string column: \<^verbatim>\<open>None\<close> and \<^verbatim>\<open>''\<close> are falsy.\<close>

definition str_truthy :: "string option \<Rightarrow> bool" where
  "str_truthy s = (case s of None \<Rightarrow> False | Some t \<Rightarrow> t \<noteq> [])"

text \<open>Truth value of a nullable numeric column: \<^verbatim>\<open>None\<close> and zero are falsy.\<close>

definition num_truthy :: "real option \<Rightarrow> bool" where
  "num_truthy x = (case x of None \<Rightarrow> False | Some v \<Rightarrow> v \<noteq> 0)"

text \<open>\<^verbatim>\<open>x or d\<close> for a nullable number \<open>x\<close>: \<open>x\<close> when it is truthy, else \<open>d\<close>.\<close>

definition num_or :: "real option \<Rightarrow> real \<Rightarrow> real" where
  "num_or x d = (if num_truthy x then the x else d)"

text \<open>
  \<^verbatim>\<open>xs[-n:]\<close>: the last \<open>n\<close> elements, the whole list when it is shorter, and the whole
  list when \<open>n = 0\<close> (\<^verbatim>\<open>xs[-0:]\<close> is \<^verbatim>\<open>xs[0:]\<close>).
\<close>

definition last_n :: "nat \<Rightarrow> 'a list \<Rightarrow> 'a list" where
  "last_n n xs = (if n = 0 then xs else drop (length xs - n) xs)"

text \<open>
  \<^verbatim>\<open>np.mean(xs)\<close>. On an empty list numpy returns NaN; no call modelled here passes an
  empty list when the period has its default value.
\<close>

definition np_mean :: "real list \<Rightarrow> real" where
  "np_mean xs = sum_list xs / real (length xs)"

subsection \<open>Values of a price attribute\<close>

text \<open>
  The attributes \<open>target_price\<close>, \<open>execution_price\<close> and \<open>performance_score\<close> of a signal
  instance hold whatever was last assigned to them: a Decimal when the row was loaded from
  the database, and the raw JSON value (an int, a float or a string) after views.py
  assigned \<^verbatim>\<open>data.get('execution_price')\<close>. A string carries, besides its text, the
  number that \<^verbatim>\<open>Decimal(s)\<close> and \<^verbatim>\<open>float(s)\<close> read from it, if they read one. A JSON boolean
  behaves as the int 0 or 1; JSON lists and objects behave like a string that is no number.
\<close>

datatype py_num = PyDecimal real | PyFloat real | PyInt int | PyStr string "real option"

text \<open>Truth value: \<^verbatim>\<open>None\<close>, a zero of any numeric type and the empty string are falsy.\<close>

fun py_truthy :: "py_num option \<Rightarrow> bool" where
  "py_truthy None = False"
| "py_truthy (Some (PyDecimal d)) = (d \<noteq> 0)"
| "py_truthy (Some (PyFloat f)) = (f \<noteq> 0)"
| "py_truthy (Some (PyInt i)) = (i \<noteq> 0)"
| "py_truthy (Some (PyStr s parsed)) = (s \<noteq> [])"

text \<open>
  \<^verbatim>\<open>a - b\<close>. A Decimal combines with a Decimal or an int; a float combines with a float
  or an int; a Decimal with a float, and a string with anything, raise TypeError.
\<close>

fun py_sub :: "py_num \<Rightarrow> py_num \<Rightarrow> error + py_num" where
  "py_sub (PyDecimal a) (PyDecimal b) = Inr (PyDecimal (a - b))"
| "py_sub (PyDecimal a) (PyInt b) = Inr (PyDecimal (a - of_int b))"
| "py_sub (PyInt a) (PyDecimal b) = Inr (PyDecimal (of_int a - b))"
| "py_sub (PyFloat a) (PyFloat b) = Inr (PyFloat (a - b))"
| "py_sub (PyFloat a) (PyInt b) = Inr (PyFloat (a - of_int b))"
| "py_sub (PyInt a) (PyFloat b) = Inr (PyFloat (of_int a - b))"
| "py_sub (PyInt a) (PyInt b) = Inr (PyInt (a - b))"
| "py_sub a b = Inl TypeError"

text \<open>
  \<^verbatim>\<open>a / b\<close>, with the same combinations; two ints give a float. A Decimal divided by
  zero raises DivisionByZero, a subclass of ZeroDivisionError, or InvalidOperation for
  \<open>0 / 0\<close>.
\<close>

definition decimal_div :: "real \<Rightarrow> real \<Rightarrow> error + py_num" where
  "decimal_div a b =
     (if b = 0 then (if a = 0 then Inl InvalidOperation else Inl ZeroDivisionError)
      else Inr (PyDecimal (a / b)))"

definition float_div :: "real \<Rightarrow> real \<Rightarrow> error + py_num" where
  "float_div a b = (if b = 0 then Inl ZeroDivisionError else Inr (PyFloat (a / b)))"

fun py_div :: "py_num \<Rightarrow> py_num \<Rightarrow> error + py_num" where
  "py_div (PyDecimal a) (PyDecimal b) = decimal_div a b"
| "py_div (PyDecimal a) (PyInt b) = decimal_div a (of_int b)"
| "py_div (PyInt a) (PyDecimal b) = decimal_div (of_int a) b"
| "py_div (PyFloat a) (PyFloat b) = float_div a b"
| "py_div (PyFloat a) (PyInt b) = float_div a (of_int b)"
| "py_div (PyInt a) (PyFloat b) = float_div (of_int a) b"
| "py_div (PyInt a) (PyInt b) = float_div (of_int a) (of_int b)"
| "py_div a b = Inl TypeError"

text \<open>
  What \<^verbatim>\<open>save()\<close> writes into a DecimalField column (\<^verbatim>\<open>DecimalField.to_python\<close>: a
  number becomes a Decimal, a string goes through \<^verbatim>\<open>Decimal(s)\<close>, ValidationError when it
  is no number) and into a FloatField column (\<^verbatim>\<open>float(value)\<close>, ValueError for a string
  that is no number).
\<close>

fun decimal_column :: "py_num option \<Rightarrow> error + py_num option" where
  "decimal_column None = Inr None"
| "decimal_column (Some (PyDecimal d)) = Inr (Some (PyDecimal d))"
| "decimal_column (Some (PyFloat f)) = Inr (Some (PyDecimal f))"
| "decimal_column (Some (PyInt i)) = Inr (Some (PyDecimal (of_int i)))"
| "decimal_column (Some (PyStr s None)) = Inl ValidationError"
| "decimal_column (Some (PyStr s (Some d))) = Inr (Some (PyDecimal d))"

fun float_column :: "py_num option \<Rightarrow> error + py_num option" where
  "float_column None = Inr None"
| "float_column (Some (PyDecimal d)) = Inr (Some (PyFloat d))"
| "float_column (Some (PyFloat f)) = Inr (Some (PyFloat f))"
| "float_column (Some (PyInt i)) = Inr (Some (PyFloat (of_int i)))"
| "float_column (Some (PyStr s None)) = Inl ValueError"
| "float_column (Some (PyStr s (Some d))) = Inr (Some (PyFloat d))"

text \<open>The next value of an auto-increment primary key.\<close>

definition next_id :: "nat list \<Rightarrow> nat" where
  "next_id ids = Suc (fold max ids 0)"

section \<open>models.py\<close>

record market_ticker =
  ticker_id :: nat
  symbol :: string

record news_article =
  art_id :: nat
  art_title :: string
  art_content :: string
  art_summary :: "string option"
  art_url :: "string option"
  art_source :: string
  scraped_date :: int
  gpt_sentiment :: "string option"
  gpt_sentiment_confidence :: "real option"
  gpt_impact :: "string option"
  gpt_impact_confidence :: "real option"

text \<open>
  A TradingSignal row. \<open>related_articles\<close> lists the linked articles in the order the
  relation's query returns them; \<open>sig_metadata\<close> is the key of the SignalMetadata row that
  points at the signal, if there is one. The text columns \<open>reasoning\<close> and
  \<open>market_context\<close> are not modelled.
\<close>

record trading_signal =
  sig_id :: nat
  ticker :: market_ticker
  signal_type :: string
  confidence :: real
  sig_source :: string
  sig_status :: string
  timestamp :: int
  expiry_time :: "int option"
  target_price :: "py_num option"
  execution_price :: "py_num option"
  performance_score :: "py_num option"
  sentiment_score :: "real option"
  sentiment_label :: "string option"
  related_articles :: "news_article list"
  sig_metadata :: "nat option"

record api_subscriber =
  sub_id :: nat
  sub_name :: string
  webhook_url :: string
  api_key :: string
  secret_key :: string
  sub_status :: string
  subscribed_tickers :: "string list"
  min_confidence_threshold :: real
  signal_types :: "string list"

text \<open>A SignalDelivery row; \<open>dlv_signal\<close> and \<open>dlv_subscriber\<close> are the two foreign keys.\<close>

record signal_delivery =
  dlv_id :: nat
  dlv_signal :: nat
  dlv_subscriber :: nat
  delivery_method :: string
  dlv_status :: string
  delivery_attempts :: nat
  last_attempt :: "int option"
  next_retry :: "int option"
  error_message :: string
  delivered_at :: "int option"

text \<open>
  \<^verbatim>\<open>Model.save()\<close> on an instance with a primary key: the row with that key is
  overwritten; when there is none, the instance is inserted. For a signal the values of
  the three price attributes are first brought to the type of their column, in the order
  of the fields; the instance itself keeps what it holds.
\<close>

definition signal_row :: "trading_signal \<Rightarrow> error + trading_signal" where
  "signal_row s =
     (case decimal_column (target_price s) of
        Inl e \<Rightarrow> Inl e
      | Inr target \<Rightarrow>
          (case decimal_column (execution_price s) of
             Inl e \<Rightarrow> Inl e
           | Inr execution \<Rightarrow>
               (case float_column (performance_score s) of
                  Inl e \<Rightarrow> Inl e
                | Inr score \<Rightarrow>
                    Inr (s\<lparr>target_price := target, execution_price := execution,
                           performance_score := score\<rparr>))))"

definition save_signal ::
  "trading_signal \<Rightarrow> trading_signal list \<Rightarrow> error + trading_signal list"
where
  "save_signal s tbl =
     (case signal_row s of
        Inl e \<Rightarrow> Inl e
      | Inr row \<Rightarrow>
          Inr (if sig_id row \<in> set (map sig_id tbl)
               then map (\<lambda>r. if sig_id r = sig_id row then row else r) tbl
               else tbl @ [row]))"

definition save_delivery :: "signal_delivery \<Rightarrow> signal_delivery list \<Rightarrow> signal_delivery list" where
  "save_delivery d tbl =
     (if dlv_id d \<in> set (map dlv_id tbl)
      then map (\<lambda>r. if dlv_id r = dlv_id d then d else r) tbl
      else tbl @ [d])"

subsection \<open>TradingSignal.calculate\_performance\<close>

text \<open>
  The value of \<open>performance\<close> in the two branches of the method, or the exception its
  arithmetic raises; the arithmetic is that of the values the two attributes hold.
\<close>

definition performance_of :: "trading_signal \<Rightarrow> error + py_num" where
  "performance_of self =
     (if signal_type self \<in> set [''buy'', ''strong_buy''] then
        (case py_sub (the (target_price self)) (the (execution_price self)) of
           Inl e \<Rightarrow> Inl e
         | Inr difference \<Rightarrow> py_div difference (the (execution_price self)))
      else
        (case py_sub (the (execution_price self)) (the (target_price self)) of
           Inl e \<Rightarrow> Inl e
         | Inr difference \<Rightarrow> py_div difference (the (execution_price self))))"

text \<open>
  Returns the method's result or the exception it raises, the instance after the call and
  the table after the call. The guard is Python truthiness of the two attributes.
\<close>

definition calculate_performance ::
  "trading_signal \<Rightarrow> trading_signal list
   \<Rightarrow> (error + py_num option) \<times> trading_signal \<times> trading_signal list"
where
  "calculate_performance self tbl =
     (if py_truthy (execution_price self) \<and> py_truthy (target_price self) then
        (case performance_of self of
           Inl e \<Rightarrow> (Inl e, self, tbl)
         | Inr performance \<Rightarrow>
             let self' = self\<lparr>performance_score := Some performance\<rparr>
             in (case save_signal self' tbl of
                   Inl e \<Rightarrow> (Inl e, self', tbl)
                 | Inr tbl' \<Rightarrow> (Inr (Some performance), self', tbl')))
      else (Inr None, self, tbl))"

section \<open>signal\_service.py: SignalGenerator\<close>

subsection \<open>\_get\_recent\_articles\<close>

text \<open>
  The lookup \<^verbatim>\<open>icontains\<close> compares without regard to case (on PostgreSQL, the
  configured backend, both sides go through \<^verbatim>\<open>UPPER\<close>); case folding is modelled on
  the ASCII letters. A \<^verbatim>\<open>NULL\<close> summary matches nothing.
\<close>

definition upper_char :: "char \<Rightarrow> char" where
  "upper_char c =
     (if 97 \<le> (of_char c :: nat) \<and> (of_char c :: nat) \<le> 122
      then (case c of Char b0 b1 b2 b3 b4 b5 b6 b7 \<Rightarrow> Char b0 b1 b2 b3 b4 False b6 b7)
      else c)"

definition icontains :: "string \<Rightarrow> string \<Rightarrow> bool" where
  "icontains field pat = str_contains (map upper_char field) (map upper_char pat)"

definition article_mentions :: "string \<Rightarrow> news_article \<Rightarrow> bool" where
  "article_mentions ticker_symbol a =
     (icontains (art_title a) ticker_symbol
      \<or> icontains (art_content a) ticker_symbol
      \<or> (case art_summary a of None \<Rightarrow> False | Some s \<Rightarrow> icontains s ticker_symbol))"

text \<open>
  \<open>now\<close> is \<^verbatim>\<open>timezone.now()\<close>, \<open>tbl\<close> the NewsArticle table. The ordering
  \<^verbatim>\<open>order_by('-scraped_date')\<close> is a stable sort on the negated date: rows with equal
  dates keep their table order (the database leaves that order open).
\<close>

definition get_recent_articles ::
  "int \<Rightarrow> news_article list \<Rightarrow> string \<Rightarrow> nat \<Rightarrow> news_article list"
where
  "get_recent_articles now tbl ticker_symbol days =
     (let cutoff_date = now - int days * 86400;
          articles = filter (\<lambda>a. article_mentions ticker_symbol a \<and> cutoff_date \<le> scraped_date a) tbl
      in take 10 (sort_key (\<lambda>a. - scraped_date a) articles))"

subsection \<open>Score maps\<close>

definition sentiment_to_score :: "string \<Rightarrow> real" where
  "sentiment_to_score sentiment =
     (if sentiment = ''positive'' then 0.7
      else if sentiment = ''negative'' then - 0.7
      else if sentiment = ''neutral'' then 0.0
      else 0.0)"

definition impact_to_score :: "string \<Rightarrow> real" where
  "impact_to_score impact =
     (if impact = ''high'' then 1.0
      else if impact = ''medium'' then 0.5
      else if impact = ''low'' then 0.2
      else 0.0)"

definition score_to_sentiment :: "real \<Rightarrow> string" where
  "score_to_sentiment score =
     (if score > 0.3 then ''positive''
      else if score < - 0.3 then ''negative''
      else ''neutral'')"

definition calculate_signal_from_scores :: "real \<Rightarrow> real \<Rightarrow> string \<times> real" where
  "calculate_signal_from_scores sentiment_score' impact_score =
     (let combined_score = (sentiment_score' * 0.7) + (impact_score * 0.3);
          signal_type' =
            (if combined_score > 0.5 then (if combined_score > 0.8 then ''strong_buy'' else ''buy'')
             else if combined_score < - 0.5
               then (if combined_score < - 0.8 then ''strong_sell'' else ''sell'')
             else ''hold'');
          confidence' = min (\<bar>combined_score\<bar> * impact_score) 1.0;
          confidence'' = max confidence' 0.1
      in (signal_type', confidence''))"

subsection \<open>\_generate\_gpt\_signal\<close>

text \<open>
  The scoring loop, with the three accumulators \<open>total_sentiment\<close>, \<open>total_impact\<close> and
  \<open>analyzed_count\<close>. For an article whose \<open>gpt_sentiment\<close> is falsy the loop calls
  \<^verbatim>\<open>self.gpt_analyzer.analyze_article\<close>; the class GPTNewsAnalyzer of gpt\_service.py
  defines no attribute of that name, so the call raises AttributeError.
\<close>

fun gpt_score_loop ::
  "news_article list \<Rightarrow> real \<times> real \<times> nat \<Rightarrow> error + (real \<times> real \<times> nat)"
where
  "gpt_score_loop [] acc = Inr acc"
| "gpt_score_loop (article # rest) (total_sentiment, total_impact, analyzed_count) =
     (if \<not> str_truthy (gpt_sentiment article) then Inl AttributeError
      else if str_truthy (gpt_sentiment article) \<and> str_truthy (gpt_impact article) then
        gpt_score_loop rest
          (total_sentiment
             + sentiment_to_score (the (gpt_sentiment article))
               * num_or (gpt_sentiment_confidence article) 0.5,
           total_impact
             + impact_to_score (the (gpt_impact article))
               * num_or (gpt_impact_confidence article) 0.5,
           analyzed_count + 1)
      else gpt_score_loop rest (total_sentiment, total_impact, analyzed_count))"

text \<open>
  \<^verbatim>\<open>breakdown[key] += 1\<close> on a dict with a fixed set of keys: KeyError for any other
  key.
\<close>

fun dict_increment :: "(string \<times> nat) list \<Rightarrow> string \<Rightarrow> error + (string \<times> nat) list" where
  "dict_increment [] key = Inl KeyError"
| "dict_increment ((k, v) # kvs) key =
     (if k = key then Inr ((k, v + 1) # kvs)
      else (case dict_increment kvs key of Inl e \<Rightarrow> Inl e | Inr kvs' \<Rightarrow> Inr ((k, v) # kvs')))"

fun breakdown_loop ::
  "(news_article \<Rightarrow> string option) \<Rightarrow> news_article list \<Rightarrow> (string \<times> nat) list
   \<Rightarrow> error + (string \<times> nat) list"
where
  "breakdown_loop field [] breakdown = Inr breakdown"
| "breakdown_loop field (article # rest) breakdown =
     (if str_truthy (field article) then
        (case dict_increment breakdown (the (field article)) of
           Inl e \<Rightarrow> Inl e
         | Inr breakdown' \<Rightarrow> breakdown_loop field rest breakdown')
      else breakdown_loop field rest breakdown)"

definition get_sentiment_breakdown :: "news_article list \<Rightarrow> error + (string \<times> nat) list" where
  "get_sentiment_breakdown articles =
     breakdown_loop gpt_sentiment articles [(''positive'', 0), (''negative'', 0), (''neutral'', 0)]"

definition get_impact_breakdown :: "news_article list \<Rightarrow> error + (string \<times> nat) list" where
  "get_impact_breakdown articles =
     breakdown_loop gpt_impact articles [(''high'', 0), (''medium'', 0), (''low'', 0)]"

text \<open>
  \<open>now\<close> is the creation time, \<open>tbl\<close> the TradingSignal table. Every exception raised
  inside the \<^verbatim>\<open>try\<close> block is caught and turned into the result \<^verbatim>\<open>None\<close>.
\<close>

definition generate_gpt_signal ::
  "int \<Rightarrow> trading_signal list \<Rightarrow> market_ticker \<Rightarrow> news_article list
   \<Rightarrow> trading_signal option \<times> trading_signal list"
where
  "generate_gpt_signal now tbl tk articles =
     (if articles = [] then (None, tbl)
      else
        (case gpt_score_loop articles (0, 0, 0) of
           Inl e \<Rightarrow> (None, tbl)
         | Inr (total_sentiment, total_impact, analyzed_count) \<Rightarrow>
             if analyzed_count = 0 then (None, tbl)
             else
               let avg_sentiment = total_sentiment / real analyzed_count;
                   avg_impact = total_impact / real analyzed_count;
                   type_conf = calculate_signal_from_scores avg_sentiment avg_impact
               in (case get_sentiment_breakdown articles of
                     Inl e \<Rightarrow> (None, tbl)
                   | Inr sentiment_breakdown \<Rightarrow>
                       (case get_impact_breakdown articles of
                          Inl e \<Rightarrow> (None, tbl)
                        | Inr impact_breakdown \<Rightarrow>
                            let signal =
                                  \<lparr>sig_id = next_id (map sig_id tbl),
                                   ticker = tk,
                                   signal_type = fst type_conf,
                                   confidence = snd type_conf,
                                   sig_source = ''gpt_analysis'',
                                   sig_status = ''active'',
                                   timestamp = now,
                                   expiry_time = None,
                                   target_price = None,
                                   execution_price = None,
                                   performance_score = None,
                                   sentiment_score = Some avg_sentiment,
                                   sentiment_label = Some (score_to_sentiment avg_sentiment),
                                   related_articles = articles,
                                   sig_metadata = None\<rparr>
                            in (Some signal, tbl @ [signal])))))"

subsection \<open>\_calculate\_news\_impact\<close>

fun news_impact_loop :: "news_article list \<Rightarrow> real \<times> nat \<Rightarrow> real \<times> nat" where
  "news_impact_loop [] acc = acc"
| "news_impact_loop (article # rest) (total_impact, count) =
     (if str_truthy (gpt_impact article) then
        let impact_score = impact_to_score (the (gpt_impact article));
            confidence' = num_or (gpt_impact_confidence article) 0.5
        in news_impact_loop rest (total_impact + impact_score * confidence', count + 1)
      else news_impact_loop rest (total_impact, count))"

definition calculate_news_impact :: "news_article list \<Rightarrow> real" where
  "calculate_news_impact articles =
     (if articles = [] then 0.0
      else
        (case news_impact_loop articles (0, 0) of
           (total_impact, count) \<Rightarrow> if count > 0 then total_impact / real count else 0.0))"

subsection \<open>\_calculate\_rsi\<close>

definition calculate_rsi :: "real list \<Rightarrow> nat \<Rightarrow> real" where
  "calculate_rsi prices period =
     (if length prices < period + 1 then 50.0
      else
        let deltas = map (\<lambda>i. prices ! i - prices ! (i - 1)) [1..<length prices];
            gains = map (\<lambda>d. if d > 0 then d else 0) deltas;
            losses = map (\<lambda>d. if d < 0 then - d else 0) deltas;
            avg_gain = np_mean (last_n period gains);
            avg_loss = np_mean (last_n period losses)
        in if avg_loss = 0 then 100.0
           else
             let rs = avg_gain / avg_loss;
                 rsi = 100 - (100 / (1 + rs))
             in rsi)"

subsection \<open>\_combine\_signal\_types\<close>

definition combine_signal_types :: "string \<Rightarrow> string \<Rightarrow> string" where
  "combine_signal_types gpt_type technical_type =
     (if gpt_type = technical_type then gpt_type
      else if str_contains gpt_type ''strong'' \<and> \<not> str_contains technical_type ''strong''
        then gpt_type
      else if str_contains technical_type ''strong'' \<and> \<not> str_contains gpt_type ''strong''
        then technical_type
      else if gpt_type \<in> set [''buy'', ''strong_buy'']
              \<and> technical_type \<in> set [''buy'', ''strong_buy'']
        then (if str_contains gpt_type ''strong'' \<or> str_contains technical_type ''strong''
              then ''strong_buy'' else ''buy'')
      else if gpt_type \<in> set [''sell'', ''strong_sell'']
              \<and> technical_type \<in> set [''sell'', ''strong_sell'']
        then (if str_contains gpt_type ''strong'' \<or> str_contains technical_type ''strong''
              then ''strong_sell'' else ''sell'')
      else ''hold'')"

section \<open>signal\_service.py: SignalManager\<close>

subsection \<open>expire\_old\_signals\<close>

text \<open>
  The queryset \<^verbatim>\<open>filter(status='active', expiry_time__lt=now)\<close>; a \<^verbatim>\<open>NULL\<close> expiry time
  fails the comparison.
\<close>

definition expiry_due :: "int \<Rightarrow> trading_signal \<Rightarrow> bool" where
  "expiry_due now s =
     (sig_status s = ''active'' \<and> (case expiry_time s of None \<Rightarrow> False | Some e \<Rightarrow> e < now))"

text \<open>
  \<^verbatim>\<open>update(status='expired')\<close> rewrites the selected rows and returns how many there
  were. \<open>now\<close> is \<^verbatim>\<open>timezone.now()\<close>, \<open>tbl\<close> the TradingSignal table.
\<close>

definition expire_old_signals :: "int \<Rightarrow> trading_signal list \<Rightarrow> nat \<times> trading_signal list" where
  "expire_old_signals now tbl =
     (let expired_count = length (filter (expiry_due now) tbl);
          tbl' = map (\<lambda>s. if expiry_due now s then s\<lparr>sig_status := ''expired''\<rparr> else s) tbl
      in (expired_count, tbl'))"

section \<open>webhook\_service.py: WebhookDeliveryService\<close>

subsection \<open>The environment of the service\<close>

text \<open>
  A Python value that may appear in a webhook payload. \<open>PIsoTime t\<close> stands for the
  string \<^verbatim>\<open>t.isoformat()\<close>; \<open>PObject cls\<close> is an instance of the class \<open>cls\<close>.
\<close>

datatype py_value =
    PNone | PBool bool | PInt int | PFloat real | PStr string | PIsoTime int
  | PList "py_value list" | PDict "(string \<times> py_value) list" | PObject string

text \<open>
  \<^verbatim>\<open>json.dumps\<close> with the default encoder raises TypeError on a value that contains an
  object of an application class.
\<close>

fun json_serializable :: "py_value \<Rightarrow> bool" where
  "json_serializable (PObject cls) = False"
| "json_serializable (PList xs) = list_all json_serializable xs"
| "json_serializable (PDict kvs) = list_all (\<lambda>kv. json_serializable (snd kv)) kvs"
| "json_serializable v = True"

text \<open>
  What \<^verbatim>\<open>requests.post\<close> yields: a response with its status code and body, or an
  exception of the class RequestException with its message.
\<close>

datatype http_result = Response nat string | RequestException string

text \<open>
  The subscribers' endpoints: the result of the \<open>n\<close>-th POST the process sends
  (counting from 0) when it goes to the given URL.
\<close>

type_synonym endpoints = "string \<Rightarrow> nat \<Rightarrow> http_result"

text \<open>
  The state the service works on: the clock read by \<^verbatim>\<open>timezone.now()\<close> and advanced by
  \<^verbatim>\<open>time.sleep\<close>, the URLs of the POSTs sent so far, and the three tables.
\<close>

record world =
  clock :: int
  http_log :: "string list"
  deliveries :: "signal_delivery list"
  signals :: "trading_signal list"
  subscribers :: "api_subscriber list"

definition max_retry_attempts :: nat where
  "max_retry_attempts = 5"

definition retry_delays :: "nat list" where
  "retry_delays = [1, 5, 15, 60, 300]"

text \<open>\<^verbatim>\<open>str(n)\<close> for a natural number, used in the error message.\<close>

function str_nat :: "nat \<Rightarrow> string" where
  "str_nat n =
     (if n < 10 then [''0123456789'' ! n]
      else str_nat (n div 10) @ [''0123456789'' ! (n mod 10)])"
  by pat_completeness auto
termination
  by (relation "measure id") auto

subsection \<open>\_prepare\_signal\_payload\<close>

text \<open>
  \<^verbatim>\<open>signal.ticker\<close> is the MarketTicker instance the foreign key points at, and
  \<^verbatim>\<open>signal.metadata\<close> the SignalMetadata instance of the reverse one-to-one relation;
  reading the latter raises RelatedObjectDoesNotExist when no such row exists.
\<close>

definition article_payload :: "news_article \<Rightarrow> py_value" where
  "article_payload article =
     PDict [(''id'', PInt (int (art_id article))),
            (''title'', PStr (art_title article)),
            (''source'', PStr (art_source article)),
            (''sentiment'', (case gpt_sentiment article of None \<Rightarrow> PNone | Some s \<Rightarrow> PStr s)),
            (''url'', (case art_url article of None \<Rightarrow> PNone | Some u \<Rightarrow> PStr u))]"

definition prepare_signal_payload :: "trading_signal \<Rightarrow> error + py_value" where
  "prepare_signal_payload signal =
     (case sig_metadata signal of
        None \<Rightarrow> Inl RelatedObjectDoesNotExist
      | Some m \<Rightarrow>
          Inr (PDict [(''event_type'', PStr ''trading_signal''),
                      (''signal_id'', PInt (int (sig_id signal))),
                      (''ticker'', PObject ''MarketTicker''),
                      (''signal_type'', PStr (signal_type signal)),
                      (''confidence'', PFloat (confidence signal)),
                      (''timestamp'', PIsoTime (timestamp signal)),
                      (''source'', PStr (sig_source signal)),
                      (''metadata'', PObject ''SignalMetadata''),
                      (''related_articles'',
                         PList (map article_payload (take 5 (related_articles signal))))]))"

subsection \<open>\_deliver\_webhook\<close>

text \<open>
  The end of one pass through the loop body: the wait before the next attempt, skipped on
  the last attempt.
\<close>

definition wait_before_retry ::
  "nat \<Rightarrow> signal_delivery \<Rightarrow> world \<Rightarrow> signal_delivery \<times> world"
where
  "wait_before_retry attempt delivery w =
     (if attempt < max_retry_attempts - 1 then
        let delay = retry_delays ! attempt;
            delivery' = delivery\<lparr>next_retry := Some (clock w + int delay)\<rparr>;
            w' = w\<lparr>deliveries := save_delivery delivery' (deliveries w)\<rparr>
        in (delivery', w'\<lparr>clock := clock w' + int delay\<rparr>)
      else (delivery, w))"

text \<open>
  One pass through the body of \<^verbatim>\<open>for attempt in range(self.max_retry_attempts)\<close>. The
  first component tells whether the pass left the function with \<^verbatim>\<open>return True\<close>.
\<close>

definition webhook_attempt ::
  "endpoints \<Rightarrow> api_subscriber \<Rightarrow> nat \<Rightarrow> signal_delivery \<Rightarrow> world
   \<Rightarrow> bool \<times> signal_delivery \<times> world"
where
  "webhook_attempt post subscriber attempt delivery w =
     (let delivery1 = delivery\<lparr>delivery_attempts := delivery_attempts delivery + 1,
                               last_attempt := Some (clock w),
                               dlv_status := (if attempt > 0 then ''retrying'' else ''pending'')\<rparr>;
          w1 = w\<lparr>deliveries := save_delivery delivery1 (deliveries w)\<rparr>;
          response = post (webhook_url subscriber) (length (http_log w1));
          w2 = w1\<lparr>http_log := http_log w1 @ [webhook_url subscriber]\<rparr>
      in (case response of
            Response status_code text \<Rightarrow>
              if status_code = 200 then
                let delivery2 = delivery1\<lparr>dlv_status := ''delivered'',
                                          delivered_at := Some (clock w2),
                                          error_message := ''''\<rparr>
                in (True, delivery2, w2\<lparr>deliveries := save_delivery delivery2 (deliveries w2)\<rparr>)
              else
                let error_msg = ''HTTP '' @ str_nat status_code @ '': '' @ text;
                    delivery2 = delivery1\<lparr>error_message := error_msg\<rparr>;
                    w3 = w2\<lparr>deliveries := save_delivery delivery2 (deliveries w2)\<rparr>
                in (False, wait_before_retry attempt delivery2 w3)
          | RequestException e \<Rightarrow>
              let error_msg = ''Request error: '' @ e;
                  delivery2 = delivery1\<lparr>error_message := error_msg\<rparr>;
                  w3 = w2\<lparr>deliveries := save_delivery delivery2 (deliveries w2)\<rparr>
              in (False, wait_before_retry attempt delivery2 w3)))"

text \<open>The loop from the value \<open>attempt\<close> of the loop variable on, and the code after it.\<close>

function attempt_loop ::
  "endpoints \<Rightarrow> api_subscriber \<Rightarrow> nat \<Rightarrow> signal_delivery \<Rightarrow> world
   \<Rightarrow> bool \<times> signal_delivery \<times> world"
where
  "attempt_loop post subscriber attempt delivery w =
     (if attempt < max_retry_attempts then
        (case webhook_attempt post subscriber attempt delivery w of
           (returned, delivery', w') \<Rightarrow>
             if returned then (True, delivery', w')
             else attempt_loop post subscriber (attempt + 1) delivery' w')
      else
        let delivery' = delivery\<lparr>dlv_status := ''failed''\<rparr>
        in (False, delivery', w\<lparr>deliveries := save_delivery delivery' (deliveries w)\<rparr>))"
  by pat_completeness auto
termination
  by (relation "measure (\<lambda>(post, subscriber, attempt, delivery, w). max_retry_attempts - attempt)")
     auto

text \<open>
  The payload is serialised before the loop; the signature and the headers are computed
  from it and do not influence what is modelled. Result: the value returned or the
  exception raised, the delivery instance and the state after the call.
\<close>

definition deliver_webhook ::
  "endpoints \<Rightarrow> api_subscriber \<Rightarrow> py_value \<Rightarrow> signal_delivery \<Rightarrow> world
   \<Rightarrow> (error + bool) \<times> signal_delivery \<times> world"
where
  "deliver_webhook post subscriber payload delivery w =
     (if \<not> json_serializable payload then (Inl TypeError, delivery, w)
      else
        (case attempt_loop post subscriber 0 delivery w of
           (success, delivery', w') \<Rightarrow> (Inr success, delivery', w')))"

subsection \<open>deliver\_signal\_to\_subscriber\<close>

text \<open>
  \<^verbatim>\<open>SignalDelivery.objects.get_or_create(signal=..., subscriber=..., defaults=...)\<close>:
  the row of the pair when there is exactly one, a new pending row when there is none.
\<close>

definition get_or_create_delivery ::
  "trading_signal \<Rightarrow> api_subscriber \<Rightarrow> world \<Rightarrow> error + (signal_delivery \<times> bool) \<times> world"
where
  "get_or_create_delivery signal subscriber w =
     (case filter (\<lambda>d. dlv_signal d = sig_id signal \<and> dlv_subscriber d = sub_id subscriber)
             (deliveries w) of
        [] \<Rightarrow>
          let delivery = \<lparr>dlv_id = next_id (map dlv_id (deliveries w)),
                          dlv_signal = sig_id signal,
                          dlv_subscriber = sub_id subscriber,
                          delivery_method = ''webhook'',
                          dlv_status = ''pending'',
                          delivery_attempts = 0,
                          last_attempt = None,
                          next_retry = None,
                          error_message = '''',
                          delivered_at = None\<rparr>
          in Inr ((delivery, True), w\<lparr>deliveries := deliveries w @ [delivery]\<rparr>)
      | [delivery] \<Rightarrow> Inr ((delivery, False), w)
      | _ \<Rightarrow> Inl MultipleObjectsReturned)"

text \<open>Result: the value returned or the exception raised, and the state after the call.\<close>

definition deliver_signal_to_subscriber ::
  "endpoints \<Rightarrow> trading_signal \<Rightarrow> api_subscriber \<Rightarrow> world \<Rightarrow> (error + bool) \<times> world"
where
  "deliver_signal_to_subscriber post signal subscriber w =
     (if webhook_url subscriber = [] then (Inr False, w)
      else
        (case get_or_create_delivery signal subscriber w of
           Inl e \<Rightarrow> (Inl e, w)
         | Inr ((delivery, created), w1) \<Rightarrow>
             if \<not> created \<and> dlv_status delivery = ''delivered'' then (Inr True, w1)
             else
               (case prepare_signal_payload signal of
                  Inl e \<Rightarrow> (Inl e, w1)
                | Inr payload \<Rightarrow>
                    (case deliver_webhook post subscriber payload delivery w1 of
                       (success, delivery', w2) \<Rightarrow> (success, w2)))))"

subsection \<open>deliver\_signal\_to\_all\_subscribers\<close>

text \<open>
  The names bound in the namespace of the module webhook\_service: its imports, its
  logger, its class, its service instance and its task function.
\<close>

definition module_globals :: "string list" where
  "module_globals =
     [''json'', ''requests'', ''time'', ''timezone'', ''settings'', ''timedelta'',
      ''APISubscriber'', ''SignalDelivery'', ''TradingSignal'', ''generate_webhook_signature'',
      ''logging'', ''logger'', ''WebhookDeliveryService'', ''webhook_service'',
      ''deliver_signal_webhook'']"

text \<open>Reading a global name that is neither bound in the module nor a builtin.\<close>

definition resolve_global :: "string \<Rightarrow> error + unit" where
  "resolve_global name = (if name \<in> set module_globals then Inr () else Inl NameError)"

text \<open>
  The truth value of a model instance: MarketTicker defines neither \<^verbatim>\<open>__bool__\<close> nor
  \<^verbatim>\<open>__len__\<close>, so every instance is truthy.
\<close>

definition instance_truthy :: "market_ticker \<Rightarrow> bool" where
  "instance_truthy tk = True"

text \<open>
  The three filters. The ticker and the type filter build their condition with \<^verbatim>\<open>Q\<close>,
  so the name is resolved first; the condition itself is what the lookups are written to
  select (the allowlist contains the value, or is empty).
\<close>

definition filter_by_ticker ::
  "trading_signal \<Rightarrow> api_subscriber list \<Rightarrow> error + api_subscriber list"
where
  "filter_by_ticker signal subs =
     (if instance_truthy (ticker signal) then
        (case resolve_global ''Q'' of
           Inl e \<Rightarrow> Inl e
         | Inr u \<Rightarrow>
             Inr (filter (\<lambda>s. symbol (ticker signal) \<in> set (subscribed_tickers s)
                               \<or> subscribed_tickers s = []) subs))
      else Inr subs)"

definition filter_by_confidence ::
  "trading_signal \<Rightarrow> api_subscriber list \<Rightarrow> api_subscriber list"
where
  "filter_by_confidence signal subs =
     filter (\<lambda>s. min_confidence_threshold s \<le> confidence signal) subs"

definition filter_by_signal_type ::
  "trading_signal \<Rightarrow> api_subscriber list \<Rightarrow> error + api_subscriber list"
where
  "filter_by_signal_type signal subs =
     (if signal_type signal \<noteq> [] then
        (case resolve_global ''Q'' of
           Inl e \<Rightarrow> Inl e
         | Inr u \<Rightarrow>
             Inr (filter (\<lambda>s. signal_type signal \<in> set (signal_types s)
                               \<or> signal_types s = []) subs))
      else Inr subs)"

text \<open>
  The delivery loop over the selected subscribers; an exception raised for one subscriber
  leaves the loop. Each result pairs the subscriber's name with the success flag.
\<close>

fun deliver_to_each ::
  "endpoints \<Rightarrow> trading_signal \<Rightarrow> api_subscriber list \<Rightarrow> (string \<times> bool) list \<Rightarrow> world
   \<Rightarrow> (error + (string \<times> bool) list) \<times> world"
where
  "deliver_to_each post signal [] delivery_results w = (Inr delivery_results, w)"
| "deliver_to_each post signal (subscriber # rest) delivery_results w =
     (case deliver_signal_to_subscriber post signal subscriber w of
        (Inl e, w') \<Rightarrow> (Inl e, w')
      | (Inr success, w') \<Rightarrow>
          deliver_to_each post signal rest
            (delivery_results @ [(sub_name subscriber, success)]) w')"

definition deliver_signal_to_all_subscribers ::
  "endpoints \<Rightarrow> trading_signal \<Rightarrow> world \<Rightarrow> (error + (string \<times> bool) list) \<times> world"
where
  "deliver_signal_to_all_subscribers post signal w =
     (let active = filter (\<lambda>s. sub_status s = ''active'' \<and> webhook_url s \<noteq> [])
                     (subscribers w)
      in (case filter_by_ticker signal active of
            Inl e \<Rightarrow> (Inl e, w)
          | Inr by_ticker \<Rightarrow>
              (case filter_by_signal_type signal (filter_by_confidence signal by_ticker) of
                 Inl e \<Rightarrow> (Inl e, w)
               | Inr selected \<Rightarrow> deliver_to_each post signal selected [] w)))"

subsection \<open>retry\_failed\_deliveries\<close>

text \<open>
  The queryset \<^verbatim>\<open>filter(status='failed', next_retry__lte=now,
  delivery_attempts__lt=self.max_retry_attempts)\<close>; a \<^verbatim>\<open>NULL\<close> retry time fails the
  comparison.
\<close>

definition retry_due :: "int \<Rightarrow> signal_delivery \<Rightarrow> bool" where
  "retry_due now d =
     (dlv_status d = ''failed''
      \<and> (case next_retry d of None \<Rightarrow> False | Some t \<Rightarrow> t \<le> now)
      \<and> delivery_attempts d < max_retry_attempts)"

definition failed_deliveries :: "world \<Rightarrow> signal_delivery list" where
  "failed_deliveries w = filter (retry_due (clock w)) (deliveries w)"

text \<open>
  The sweep over the selected rows. \<^verbatim>\<open>delivery.signal\<close> and \<^verbatim>\<open>delivery.subscriber\<close>
  follow the foreign keys into their tables.
\<close>

fun retry_each ::
  "endpoints \<Rightarrow> signal_delivery list \<Rightarrow> nat \<Rightarrow> world \<Rightarrow> (error + nat) \<times> world"
where
  "retry_each post [] retry_count w = (Inr retry_count, w)"
| "retry_each post (delivery # rest) retry_count w =
     (case find (\<lambda>s. sig_id s = dlv_signal delivery) (signals w) of
        None \<Rightarrow> (Inl DoesNotExist, w)
      | Some signal \<Rightarrow>
          (case prepare_signal_payload signal of
             Inl e \<Rightarrow> (Inl e, w)
           | Inr payload \<Rightarrow>
               (case find (\<lambda>s. sub_id s = dlv_subscriber delivery) (subscribers w) of
                  None \<Rightarrow> (Inl DoesNotExist, w)
                | Some subscriber \<Rightarrow>
                    (case deliver_webhook post subscriber payload delivery w of
                       (Inl e, delivery', w') \<Rightarrow> (Inl e, w')
                     | (Inr success, delivery', w') \<Rightarrow>
                         retry_each post rest
                           (if success then retry_count + 1 else retry_count) w'))))"

definition retry_failed_deliveries :: "endpoints \<Rightarrow> world \<Rightarrow> (error + nat) \<times> world" where
  "retry_failed_deliveries post w = retry_each post (failed_deliveries w) 0 w"

section \<open>Sample rows\<close>

text \<open>Concrete rows at which the theorems below are instantiated.\<close>

definition sample_ticker :: market_ticker where
  "sample_ticker = \<lparr>ticker_id = 1, symbol = ''AAPL''\<rparr>"

definition sample_signal :: trading_signal where
  "sample_signal =
     \<lparr>sig_id = 1, ticker = sample_ticker, signal_type = ''buy'', confidence = 0.9,
      sig_source = ''combined'', sig_status = ''active'', timestamp = 0,
      expiry_time = Some 50, target_price = Some (PyDecimal 110),
      execution_price = Some (PyDecimal 100),
      performance_score = None, sentiment_score = None, sentiment_label = None,
      related_articles = [], sig_metadata = None\<rparr>"

definition sample_signals :: "trading_signal list" where
  "sample_signals =
     [sample_signal,
      sample_signal\<lparr>sig_id := 2, expiry_time := Some 200\<rparr>,
      sample_signal\<lparr>sig_id := 3, sig_status := ''executed''\<rparr>,
      sample_signal\<lparr>sig_id := 4, expiry_time := None\<rparr>]"

definition sample_article :: news_article where
  "sample_article =
     \<lparr>art_id = 1, art_title = ''Chipmaker shares rally'',
      art_content = ''Analysts lifted their targets for aapl after the report.'',
      art_summary = None, art_url = None, art_source = ''reuters'', scraped_date = 1000000,
      gpt_sentiment = Some ''positive'', gpt_sentiment_confidence = Some 0.8,
      gpt_impact = Some ''high'', gpt_impact_confidence = Some 0.9\<rparr>"

definition sample_articles :: "news_article list" where
  "sample_articles =
     [sample_article\<lparr>art_id := 2, art_content := ''Bond yields were flat.''\<rparr>,
      sample_article\<lparr>art_id := 3, scraped_date := 100\<rparr>,
      sample_article,
      sample_article\<lparr>art_id := 4, art_content := '''', art_summary := Some ''AAPL beats'',
                       scraped_date := 1000050\<rparr>]"

definition sample_subscriber :: api_subscriber where
  "sample_subscriber =
     \<lparr>sub_id = 1, sub_name = ''Desk A'', webhook_url = ''https://desk.example/hook'',
      api_key = ''tp_key'', secret_key = ''secret'', sub_status = ''active'',
      subscribed_tickers = [], min_confidence_threshold = 0.5, signal_types = []\<rparr>"

definition sample_delivery :: signal_delivery where
  "sample_delivery =
     \<lparr>dlv_id = 1, dlv_signal = 1, dlv_subscriber = 1, delivery_method = ''webhook'',
      dlv_status = ''pending'', delivery_attempts = 0, last_attempt = None,
      next_retry = None, error_message = '''', delivered_at = None\<rparr>"

definition sample_world :: world where
  "sample_world =
     \<lparr>clock = 1000, http_log = [], deliveries = [sample_delivery],
      signals = [sample_signal], subscribers = [sample_subscriber]\<rparr>"

definition sample_payload :: py_value where
  "sample_payload =
     PDict [(''event_type'', PStr ''trading_signal''), (''signal_id'', PInt 1),
            (''ticker'', PStr ''AAPL''), (''confidence'', PFloat 0.9)]"

text \<open>An endpoint that answers every request with HTTP 500.\<close>

definition always_500 :: endpoints where
  "always_500 url n = Response 500 ''Internal Server Error''"

text \<open>The sample world after the signal has been delivered to the sample subscriber.\<close>

definition delivered_world :: world where
  "delivered_world =
     sample_world\<lparr>deliveries :=
       [sample_delivery\<lparr>dlv_status := ''delivered'', delivery_attempts := 1,
                        last_attempt := Some 900, delivered_at := Some 900\<rparr>]\<rparr>"

chapter \<open>Properties\<close>

section \<open>Signal-type fusion\<close>

text \<open>
  C1, as stated, fails: a strong buy on the news side against a plain sell on the technical
  side is fused to \<open>strong_buy\<close>, not to \<open>hold\<close>, because the rule "one side strong, the
  other not" is tested before the directions are compared.
\<close>

theorem C1_counterexample:
  "combine_signal_types ''strong_buy'' ''sell'' = ''strong_buy''
   \<and> combine_signal_types ''strong_buy'' ''sell'' \<noteq> ''hold''"
  by (simp add: combine_signal_types_def)

text \<open>
  C1 (amended): for a buy-family news type against a sell-family technical type the fused
  type is \<open>hold\<close> when both sides are equally strong (buy against sell, strong\_buy against
  strong\_sell); when exactly one side is strong, the fused type is that strong side's type.
\<close>

theorem C1_opposed_directions:
  assumes g: "gpt_type \<in> {''buy'', ''strong_buy''}"
    and t: "technical_type \<in> {''sell'', ''strong_sell''}"
  shows "combine_signal_types gpt_type technical_type =
           (if gpt_type = ''strong_buy'' \<and> technical_type = ''sell'' then ''strong_buy''
            else if gpt_type = ''buy'' \<and> technical_type = ''strong_sell'' then ''strong_sell''
            else ''hold'')"
proof -
  from g have "gpt_type = ''buy'' \<or> gpt_type = ''strong_buy''" by blast
  moreover from t have "technical_type = ''sell'' \<or> technical_type = ''strong_sell''" by blast
  ultimately consider
      (plain) "gpt_type = ''buy''" "technical_type = ''sell''"
    | (tech_strong) "gpt_type = ''buy''" "technical_type = ''strong_sell''"
    | (gpt_strong) "gpt_type = ''strong_buy''" "technical_type = ''sell''"
    | (both_strong) "gpt_type = ''strong_buy''" "technical_type = ''strong_sell''"
    by blast
  then show ?thesis
  proof cases
    case plain
    then show ?thesis by (simp add: combine_signal_types_def)
  next
    case tech_strong
    then show ?thesis by (simp add: combine_signal_types_def)
  next
    case gpt_strong
    then show ?thesis by (simp add: combine_signal_types_def)
  next
    case both_strong
    then show ?thesis by (simp add: combine_signal_types_def)
  qed
qed

theorem C1_opposed_directions_witness:
  "combine_signal_types ''buy'' ''sell'' = ''hold''
   \<and> combine_signal_types ''strong_buy'' ''strong_sell'' = ''hold''
   \<and> combine_signal_types ''buy'' ''strong_sell'' = ''strong_sell''"
proof -
  have a: "combine_signal_types ''buy'' ''sell'' = ''hold''"
    using C1_opposed_directions [of "''buy''" "''sell''"] by simp
  have b: "combine_signal_types ''strong_buy'' ''strong_sell'' = ''hold''"
    using C1_opposed_directions [of "''strong_buy''" "''strong_sell''"] by simp
  have c: "combine_signal_types ''buy'' ''strong_sell'' = ''strong_sell''"
    using C1_opposed_directions [of "''buy''" "''strong_sell''"] by simp
  from a b c show ?thesis by blast
qed

section \<open>Relative strength index\<close>

lemma sum_list_all_zero: "\<forall>x\<in>set xs. x = (0::real) \<Longrightarrow> sum_list xs = 0"
  by (induction xs) auto

lemma np_mean_nonneg: "\<forall>x\<in>set xs. 0 \<le> x \<Longrightarrow> 0 \<le> np_mean xs"
  by (simp add: np_mean_def sum_list_nonneg)

lemma in_set_last_nD: "x \<in> set (last_n n xs) \<Longrightarrow> x \<in> set xs"
  by (cases "n = 0") (auto simp add: last_n_def dest: in_set_dropD)

lemma rsi_formula_range:
  fixes g l :: real
  assumes "0 \<le> g" and "0 < l"
  shows "0 \<le> 100 - 100 / (1 + g / l)" and "100 - 100 / (1 + g / l) \<le> 100"
proof -
  have "0 \<le> g / l" using assms by simp
  then have one: "1 \<le> 1 + g / l" by simp
  then have "100 / (1 + g / l) \<le> 100 / 1"
    by (intro divide_left_mono) auto
  then show "0 \<le> 100 - 100 / (1 + g / l)" by simp
  from one have "0 \<le> 100 / (1 + g / l)" by simp
  then show "100 - 100 / (1 + g / l) \<le> 100" by simp
qed

lemma rsi_range: "0 \<le> calculate_rsi prices period \<and> calculate_rsi prices period \<le> 100"
proof (cases "length prices < period + 1")
  case True
  then show ?thesis by (simp add: calculate_rsi_def)
next
  case False
  define deltas where "deltas = map (\<lambda>i. prices ! i - prices ! (i - 1)) [1..<length prices]"
  define gains where "gains = map (\<lambda>d. if d > 0 then d else (0::real)) deltas"
  define losses where "losses = map (\<lambda>d. if d < 0 then - d else (0::real)) deltas"
  define avg_gain where "avg_gain = np_mean (last_n period gains)"
  define avg_loss where "avg_loss = np_mean (last_n period losses)"
  have rsi: "calculate_rsi prices period =
      (if avg_loss = 0 then 100 else 100 - 100 / (1 + avg_gain / avg_loss))"
    using False
    by (simp add: calculate_rsi_def Let_def deltas_def gains_def losses_def avg_gain_def avg_loss_def)
  have "\<forall>x\<in>set gains. 0 \<le> x" by (auto simp add: gains_def)
  then have "\<forall>x\<in>set (last_n period gains). 0 \<le> x" by (auto dest: in_set_last_nD)
  then have g: "0 \<le> avg_gain" unfolding avg_gain_def by (rule np_mean_nonneg)
  have "\<forall>x\<in>set losses. 0 \<le> x" by (auto simp add: losses_def)
  then have "\<forall>x\<in>set (last_n period losses). 0 \<le> x" by (auto dest: in_set_last_nD)
  then have l: "0 \<le> avg_loss" unfolding avg_loss_def by (rule np_mean_nonneg)
  show ?thesis
  proof (cases "avg_loss = 0")
    case True
    then show ?thesis by (simp add: rsi)
  next
    case False
    with l have "0 < avg_loss" by simp
    from rsi_formula_range [OF g this] False show ?thesis by (simp add: rsi)
  qed
qed

lemma rsi_short: "length prices < period + 1 \<Longrightarrow> calculate_rsi prices period = 50"
  by (simp add: calculate_rsi_def)

lemma rsi_increasing:
  assumes len: "period + 1 \<le> length prices" and inc: "sorted_wrt (<) prices"
  shows "calculate_rsi prices period = 100"
proof -
  define deltas where "deltas = map (\<lambda>i. prices ! i - prices ! (i - 1)) [1..<length prices]"
  define losses where "losses = map (\<lambda>d. if d < 0 then - d else (0::real)) deltas"
  have "\<forall>d\<in>set deltas. 0 < d"
  proof
    fix d assume "d \<in> set deltas"
    then obtain i where i: "1 \<le> i" "i < length prices" and d: "d = prices ! i - prices ! (i - 1)"
      by (auto simp add: deltas_def)
    from i have "i - 1 < i" by simp
    with inc i have "prices ! (i - 1) < prices ! i"
      by (simp add: sorted_wrt_nth_less)
    with d show "0 < d" by simp
  qed
  then have "\<forall>x\<in>set losses. x = 0" by (auto simp add: losses_def)
  then have "\<forall>x\<in>set (last_n period losses). x = 0" by (auto dest: in_set_last_nD)
  then have "sum_list (last_n period losses) = 0" by (rule sum_list_all_zero)
  then have "np_mean (last_n period losses) = 0" by (simp add: np_mean_def)
  with len show ?thesis
    by (simp add: calculate_rsi_def Let_def deltas_def losses_def)
qed

text \<open>
  C6: with the default period 14 the RSI lies in \<open>[0, 100]\<close> for every price list; it is
  exactly 50 for fewer than 15 prices, and exactly 100 for at least 15 strictly increasing
  prices.
\<close>

theorem C6_rsi:
  "(0 \<le> calculate_rsi prices 14 \<and> calculate_rsi prices 14 \<le> 100)
   \<and> (length prices < 15 \<longrightarrow> calculate_rsi prices 14 = 50.0)
   \<and> (15 \<le> length prices \<and> sorted_wrt (<) prices \<longrightarrow> calculate_rsi prices 14 = 100.0)"
  using rsi_range [of prices 14] rsi_short [of prices 14] rsi_increasing [of 14 prices]
  by simp

theorem C6_rsi_witness:
  "calculate_rsi [10, 11, 12] 14 = 50
   \<and> calculate_rsi [1, 2, 3, 4, 5, 6, 7, 8, 9, 10, 11, 12, 13, 14, 15] 14 = 100
   \<and> 0 \<le> calculate_rsi [44, 47, 45, 43, 44, 46, 47, 45, 46, 48, 47, 49, 50, 48, 51, 52] 14
   \<and> calculate_rsi [44, 47, 45, 43, 44, 46, 47, 45, 46, 48, 47, 49, 50, 48, 51, 52] 14 \<le> 100"
proof -
  have a: "calculate_rsi [10, 11, 12] 14 = 50"
    using C6_rsi [of "[10, 11, 12]"] by simp
  have b: "calculate_rsi [1, 2, 3, 4, 5, 6, 7, 8, 9, 10, 11, 12, 13, 14, 15] 14 = 100"
    using C6_rsi [of "[1, 2, 3, 4, 5, 6, 7, 8, 9, 10, 11, 12, 13, 14, 15]"] by simp
  have c: "0 \<le> calculate_rsi [44, 47, 45, 43, 44, 46, 47, 45, 46, 48, 47, 49, 50, 48, 51, 52] 14
   \<and> calculate_rsi [44, 47, 45, 43, 44, 46, 47, 45, 46, 48, 47, 49, 50, 48, 51, 52] 14 \<le> 100"
    using C6_rsi [of "[44, 47, 45, 43, 44, 46, 47, 45, 46, 48, 47, 49, 50, 48, 51, 52]"] by blast
  from a b c show ?thesis by blast
qed

section \<open>Signal expiry\<close>

lemma expiry_due_iff:
  "expiry_due now s \<longleftrightarrow>
     sig_status s = ''active'' \<and> (\<exists>e. expiry_time s = Some e \<and> e < now)"
  by (cases "expiry_time s") (simp_all add: expiry_due_def)

lemma expired_not_due: "\<not> expiry_due now' (s\<lparr>sig_status := ''expired''\<rparr>)"
  by (simp add: expiry_due_def)

lemma expire_fst:
  "fst (expire_old_signals now tbl) = length (filter (expiry_due now) tbl)"
  by (simp add: expire_old_signals_def Let_def)

lemma expire_snd:
  "snd (expire_old_signals now tbl) =
     map (\<lambda>s. if expiry_due now s then s\<lparr>sig_status := ''expired''\<rparr> else s) tbl"
  by (simp add: expire_old_signals_def Let_def)

lemma expire_nothing_due:
  assumes "\<forall>s\<in>set tbl. \<not> expiry_due now s"
  shows "expire_old_signals now tbl = (0, tbl)"
proof -
  from assms have "filter (expiry_due now) tbl = []" by (simp add: filter_empty_conv)
  moreover from assms
  have "map (\<lambda>s. if expiry_due now s then s\<lparr>sig_status := ''expired''\<rparr> else s) tbl = tbl"
    by (simp add: map_idI)
  ultimately show ?thesis by (simp add: expire_old_signals_def Let_def)
qed

lemma expire_second_call:
  assumes quiet: "\<forall>s\<in>set tbl. sig_status s = ''active'' \<longrightarrow>
                    (\<forall>e. expiry_time s = Some e \<longrightarrow> \<not> (now \<le> e \<and> e < now'))"
  shows "expire_old_signals now' (snd (expire_old_signals now tbl)) =
           (0, snd (expire_old_signals now tbl))"
proof (rule expire_nothing_due, rule ballI)
  fix s' assume "s' \<in> set (snd (expire_old_signals now tbl))"
  then obtain s where s: "s \<in> set tbl"
    and s': "s' = (if expiry_due now s then s\<lparr>sig_status := ''expired''\<rparr> else s)"
    by (auto simp add: expire_snd)
  show "\<not> expiry_due now' s'"
  proof (cases "expiry_due now s")
    case True
    with s' show ?thesis by (simp add: expired_not_due)
  next
    case False
    show ?thesis
    proof
      assume "expiry_due now' s'"
      with False s' have due': "expiry_due now' s" by simp
      then obtain e where act: "sig_status s = ''active''"
        and e: "expiry_time s = Some e" "e < now'"
        by (auto simp add: expiry_due_iff)
      from False act e have "now \<le> e" by (auto simp add: expiry_due_iff)
      with quiet s act e show False by blast
    qed
  qed
qed

text \<open>
  C7: a call at time \<open>now\<close> returns the number of signals that are active with an expiry
  time before \<open>now\<close>, sets exactly those rows to expired and leaves every other row as it
  was. A second call at the same time returns 0 and changes no row; so does a second call
  at any time \<open>now'\<close> such that no active signal expires from \<open>now\<close> up to \<open>now'\<close>.
\<close>

theorem C7_expire_old_signals:
  "fst (expire_old_signals now tbl) =
     length (filter (\<lambda>s. sig_status s = ''active'' \<and> (\<exists>e. expiry_time s = Some e \<and> e < now)) tbl)
   \<and> length (snd (expire_old_signals now tbl)) = length tbl
   \<and> (\<forall>i<length tbl.
         snd (expire_old_signals now tbl) ! i =
           (if sig_status (tbl ! i) = ''active'' \<and> (\<exists>e. expiry_time (tbl ! i) = Some e \<and> e < now)
            then (tbl ! i)\<lparr>sig_status := ''expired''\<rparr> else tbl ! i))
   \<and> expire_old_signals now (snd (expire_old_signals now tbl)) =
         (0, snd (expire_old_signals now tbl))
   \<and> ((\<forall>s\<in>set tbl. sig_status s = ''active'' \<longrightarrow>
           (\<forall>e. expiry_time s = Some e \<longrightarrow> \<not> (now \<le> e \<and> e < now')))
        \<longrightarrow> expire_old_signals now' (snd (expire_old_signals now tbl)) =
              (0, snd (expire_old_signals now tbl)))"
proof -
  have count: "fst (expire_old_signals now tbl) =
     length (filter (\<lambda>s. sig_status s = ''active'' \<and> (\<exists>e. expiry_time s = Some e \<and> e < now)) tbl)"
    by (simp add: expire_fst expiry_due_iff [abs_def])
  have len: "length (snd (expire_old_signals now tbl)) = length tbl"
    by (simp add: expire_snd)
  have rows: "\<forall>i<length tbl.
         snd (expire_old_signals now tbl) ! i =
           (if sig_status (tbl ! i) = ''active'' \<and> (\<exists>e. expiry_time (tbl ! i) = Some e \<and> e < now)
            then (tbl ! i)\<lparr>sig_status := ''expired''\<rparr> else tbl ! i)"
    by (simp add: expire_snd expiry_due_iff)
  have same: "expire_old_signals now (snd (expire_old_signals now tbl)) =
         (0, snd (expire_old_signals now tbl))"
    by (rule expire_second_call) simp
  have later: "(\<forall>s\<in>set tbl. sig_status s = ''active'' \<longrightarrow>
           (\<forall>e. expiry_time s = Some e \<longrightarrow> \<not> (now \<le> e \<and> e < now')))
        \<longrightarrow> expire_old_signals now' (snd (expire_old_signals now tbl)) =
              (0, snd (expire_old_signals now tbl))"
    using expire_second_call [of tbl now now'] by blast
  from count len rows same later show ?thesis by blast
qed

theorem C7_expire_old_signals_witness:
  "fst (expire_old_signals 100 sample_signals) = 1
   \<and> map sig_status (snd (expire_old_signals 100 sample_signals)) =
       [''expired'', ''active'', ''executed'', ''active'']
   \<and> expire_old_signals 150 (snd (expire_old_signals 100 sample_signals)) =
       (0, snd (expire_old_signals 100 sample_signals))"
proof -
  note c7 = C7_expire_old_signals [of 100 sample_signals 150]
  have quiet: "\<forall>s\<in>set sample_signals. sig_status s = ''active'' \<longrightarrow>
           (\<forall>e. expiry_time s = Some e \<longrightarrow> \<not> ((100::int) \<le> e \<and> e < 150))"
    by (simp add: sample_signals_def sample_signal_def)
  have a: "fst (expire_old_signals 100 sample_signals) = 1"
    using c7 by (simp add: sample_signals_def sample_signal_def)
  have b: "map sig_status (snd (expire_old_signals 100 sample_signals)) =
       [''expired'', ''active'', ''executed'', ''active'']"
    by (simp add: expire_old_signals_def expiry_due_def sample_signals_def sample_signal_def)
  have c: "expire_old_signals 150 (snd (expire_old_signals 100 sample_signals)) =
       (0, snd (expire_old_signals 100 sample_signals))"
    using c7 quiet by blast
  from a b c show ?thesis by blast
qed

section \<open>Performance of an executed signal\<close>

lemma not_py_truthy_iff:
  "\<not> py_truthy x \<longleftrightarrow>
     x \<in> {None, Some (PyDecimal 0), Some (PyFloat 0), Some (PyInt 0)}
     \<or> (\<exists>parsed. x = Some (PyStr [] parsed))"
  by (cases x rule: py_truthy.cases) auto

lemma save_signal_rows:
  assumes "signal_row s = Inr row"
  shows "\<exists>tbl'. save_signal s tbl = Inr tbl'
           \<and> row \<in> set tbl'
           \<and> (\<forall>r\<in>set tbl'. sig_id r = sig_id s \<longrightarrow> r = row)
           \<and> (\<forall>r. sig_id r \<noteq> sig_id s \<longrightarrow> (r \<in> set tbl' \<longleftrightarrow> r \<in> set tbl))"
proof -
  from assms have id: "sig_id row = sig_id s"
    by (auto simp add: signal_row_def split: sum.splits)
  from assms have "save_signal s tbl =
      Inr (if sig_id row \<in> set (map sig_id tbl)
           then map (\<lambda>r. if sig_id r = sig_id row then row else r) tbl
           else tbl @ [row])"
    by (simp add: save_signal_def)
  with id show ?thesis by (auto simp add: image_iff)
qed

lemma performance_unset:
  assumes "\<not> py_truthy (execution_price self) \<or> \<not> py_truthy (target_price self)"
  shows "calculate_performance self tbl = (Inr None, self, tbl)"
  using assms by (auto simp add: calculate_performance_def)

lemma performance_of_decimal:
  assumes "execution_price self = Some (PyDecimal e)" "e \<noteq> 0"
    and "target_price self = Some (PyDecimal t)"
  shows "performance_of self =
           Inr (PyDecimal (if signal_type self = ''buy'' \<or> signal_type self = ''strong_buy''
                           then (t - e) / e else (e - t) / e))"
  using assms by (simp add: performance_of_def decimal_div_def)

lemma performance_set:
  assumes e: "execution_price self = Some (PyDecimal e)" "e \<noteq> 0"
    and t: "target_price self = Some (PyDecimal t)" "t \<noteq> 0"
  shows "\<exists>p self' row tbl'.
           calculate_performance self tbl = (Inr (Some (PyDecimal p)), self', tbl')
           \<and> p = (if signal_type self = ''buy'' \<or> signal_type self = ''strong_buy''
                  then (t - e) / e else (e - t) / e)
           \<and> self' = self\<lparr>performance_score := Some (PyDecimal p)\<rparr>
           \<and> row = self\<lparr>performance_score := Some (PyFloat p)\<rparr>
           \<and> row \<in> set tbl'
           \<and> (\<forall>r\<in>set tbl'. sig_id r = sig_id self \<longrightarrow> r = row)
           \<and> (\<forall>r. sig_id r \<noteq> sig_id self \<longrightarrow> (r \<in> set tbl' \<longleftrightarrow> r \<in> set tbl))"
proof -
  define p where "p = (if signal_type self = ''buy'' \<or> signal_type self = ''strong_buy''
                  then (t - e) / e else (e - t) / e)"
  define self' where "self' = self\<lparr>performance_score := Some (PyDecimal p)\<rparr>"
  define row where "row = self\<lparr>performance_score := Some (PyFloat p)\<rparr>"
  have perf: "performance_of self = Inr (PyDecimal p)"
    using performance_of_decimal [OF e t(1)] by (simp add: p_def)
  have "signal_row self' = Inr row"
    using e t by (simp add: signal_row_def self'_def row_def)
  from save_signal_rows [OF this, of tbl] obtain tbl' where
    sv: "save_signal self' tbl = Inr tbl'" and mem: "row \<in> set tbl'"
    and own: "\<forall>r\<in>set tbl'. sig_id r = sig_id self \<longrightarrow> r = row"
    and oth: "\<forall>r. sig_id r \<noteq> sig_id self \<longrightarrow> (r \<in> set tbl' \<longleftrightarrow> r \<in> set tbl)"
    by (auto simp add: self'_def)
  from e t perf sv
  have "calculate_performance self tbl = (Inr (Some (PyDecimal p)), self', tbl')"
    by (simp add: calculate_performance_def self'_def)
  with mem own oth show ?thesis
    unfolding p_def self'_def row_def by blast
qed

text \<open>
  What the method does with the value that views.py assigns before it calls the method,
  a float or a string taken from the request, against the Decimal target loaded from the
  database: the subtraction raises TypeError and nothing is stored.
\<close>

lemma performance_raw_execution_price:
  assumes "execution_price self = Some (PyFloat e) \<and> e \<noteq> 0
           \<or> execution_price self = Some (PyStr s parsed) \<and> s \<noteq> []"
    and "target_price self = Some (PyDecimal t)" "t \<noteq> 0"
  shows "calculate_performance self tbl = (Inl TypeError, self, tbl)"
  using assms by (auto simp add: calculate_performance_def performance_of_def)

lemma py_sub_numeric:
  assumes "py_sub a b = Inr d"
  shows "(\<exists>x. d = PyDecimal x) \<or> (\<exists>x. d = PyFloat x) \<or> (\<exists>x. d = PyInt x)"
  using assms by (cases "(a, b)" rule: py_sub.cases) auto

lemma py_sub_operands:
  assumes "py_sub a b = Inr d"
  shows "(\<forall>s parsed. a \<noteq> PyStr s parsed) \<and> (\<forall>s parsed. b \<noteq> PyStr s parsed)"
  using assms by (cases "(a, b)" rule: py_sub.cases) auto

lemma py_div_by_truthy:
  assumes "py_truthy (Some b)" and "py_div a b = Inl e"
  shows "e = TypeError"
  using assms
  by (cases "(a, b)" rule: py_div.cases) (auto simp add: decimal_div_def float_div_def split: if_splits)

lemma py_div_numeric:
  assumes "py_div a b = Inr d"
  shows "(\<exists>x. d = PyDecimal x) \<or> (\<exists>x. d = PyFloat x)"
  using assms
  by (cases "(a, b)" rule: py_div.cases) (auto simp add: decimal_div_def float_div_def split: if_splits)

lemma performance_of_error:
  assumes "py_truthy (execution_price self)" and "performance_of self = Inl e"
  shows "e = TypeError"
proof -
  from assms(1) obtain x where x: "execution_price self = Some x"
    by (cases "execution_price self") auto
  with assms(1) have tr: "py_truthy (Some x)" by simp
  show ?thesis
  proof (cases "signal_type self \<in> set [''buy'', ''strong_buy'']")
    case True
    show ?thesis
    proof (cases "py_sub (the (target_price self)) x")
      case (Inl e')
      then have "e' = TypeError" by (cases "(the (target_price self), x)" rule: py_sub.cases) auto
      with Inl True x assms(2) show ?thesis by (simp add: performance_of_def)
    next
      case (Inr d)
      with True x assms(2) have "py_div d x = Inl e" by (simp add: performance_of_def)
      with tr show ?thesis by (rule py_div_by_truthy)
    qed
  next
    case False
    show ?thesis
    proof (cases "py_sub x (the (target_price self))")
      case (Inl e')
      then have "e' = TypeError" by (cases "(x, the (target_price self))" rule: py_sub.cases) auto
      with Inl False x assms(2) show ?thesis by (simp add: performance_of_def)
    next
      case (Inr d)
      with False x assms(2) have "py_div d x = Inl e" by (simp add: performance_of_def)
      with tr show ?thesis by (rule py_div_by_truthy)
    qed
  qed
qed

lemma decimal_column_numeric:
  assumes "\<forall>s parsed. x \<noteq> PyStr s parsed"
  shows "\<exists>c. decimal_column (Some x) = Inr c"
  using assms by (cases x) auto

lemma performance_of_operands:
  assumes "performance_of self = Inr p"
  shows "(\<forall>s parsed. the (execution_price self) \<noteq> PyStr s parsed)
         \<and> (\<forall>s parsed. the (target_price self) \<noteq> PyStr s parsed)
         \<and> ((\<exists>x. p = PyDecimal x) \<or> (\<exists>x. p = PyFloat x))"
proof (cases "signal_type self \<in> set [''buy'', ''strong_buy'']")
  case True
  with assms obtain d where d: "py_sub (the (target_price self)) (the (execution_price self)) = Inr d"
    and q: "py_div d (the (execution_price self)) = Inr p"
    by (auto simp add: performance_of_def split: sum.splits)
  from py_sub_operands [OF d] py_div_numeric [OF q] show ?thesis by blast
next
  case False
  with assms obtain d where d: "py_sub (the (execution_price self)) (the (target_price self)) = Inr d"
    and q: "py_div d (the (execution_price self)) = Inr p"
    by (auto simp add: performance_of_def split: sum.splits)
  from py_sub_operands [OF d] py_div_numeric [OF q] show ?thesis by blast
qed

text \<open>
  The only exception the method raises is the TypeError of its arithmetic: the divisor has
  passed the truthiness guard, and a value that went through the arithmetic is a number,
  which \<open>save\<close> accepts.
\<close>

lemma calculate_performance_raises_only_TypeError:
  assumes "fst (calculate_performance self tbl) = Inl e"
  shows "e = TypeError"
proof -
  from assms have tr: "py_truthy (execution_price self)" "py_truthy (target_price self)"
    by (auto simp add: calculate_performance_def split: if_splits)
  then obtain x t where x: "execution_price self = Some x" and t: "target_price self = Some t"
    by (cases "execution_price self"; cases "target_price self") auto
  show ?thesis
  proof (cases "performance_of self")
    case (Inl e')
    with tr assms have "e' = e" by (simp add: calculate_performance_def)
    with performance_of_error [OF tr(1) Inl] show ?thesis by simp
  next
    case (Inr p)
    from performance_of_operands [OF Inr] x t
    have nx: "\<forall>s parsed. x \<noteq> PyStr s parsed" and nt: "\<forall>s parsed. t \<noteq> PyStr s parsed"
      and np: "(\<exists>v. p = PyDecimal v) \<or> (\<exists>v. p = PyFloat v)"
      by simp_all
    from decimal_column_numeric [OF nx] decimal_column_numeric [OF nt] np x t
    have "\<exists>row. signal_row (self\<lparr>performance_score := Some p\<rparr>) = Inr row"
      by (auto simp add: signal_row_def)
    then have "\<exists>tbl'. save_signal (self\<lparr>performance_score := Some p\<rparr>) tbl = Inr tbl'"
      by (auto simp add: save_signal_def)
    with tr Inr assms show ?thesis by (auto simp add: calculate_performance_def Let_def)
  qed
qed

text \<open>
  C8, as stated, fails: a target price that is set to zero fails the truthiness guard, so
  the method returns \<open>None\<close> and stores nothing, where the claim has it compute
  \<open>(100 - 0) / 100\<close> for this sell signal.
\<close>

theorem C8_counterexample:
  "execution_price (sample_signal\<lparr>signal_type := ''sell'', target_price := Some (PyDecimal 0)\<rparr>)
     = Some (PyDecimal 100)
   \<and> target_price (sample_signal\<lparr>signal_type := ''sell'', target_price := Some (PyDecimal 0)\<rparr>)
     = Some (PyDecimal 0)
   \<and> calculate_performance
        (sample_signal\<lparr>signal_type := ''sell'', target_price := Some (PyDecimal 0)\<rparr>)
        sample_signals
      = (Inr None, sample_signal\<lparr>signal_type := ''sell'', target_price := Some (PyDecimal 0)\<rparr>,
         sample_signals)"
  by (simp add: calculate_performance_def sample_signal_def)

text \<open>
  C8 (amended): calculate\_performance returns \<open>None\<close> and changes neither the signal nor
  the table unless both execution\_price and target\_price are set and different from zero
  (a zero of any numeric type and an empty string count as not set). When both hold
  Decimal values different from zero, as the two columns do when the signal is loaded, it
  computes \<open>(target - execution) / execution\<close> for the types buy and strong\_buy and
  \<open>(execution - target) / execution\<close> for every other type, sets performance\_score of the
  signal to that value, saves the signal (its row then carries the value as a float, the
  other rows are as before) and returns the value.
\<close>

theorem C8_calculate_performance:
  "((execution_price self \<in> {None, Some (PyDecimal 0), Some (PyFloat 0), Some (PyInt 0)}
       \<or> (\<exists>parsed. execution_price self = Some (PyStr [] parsed))
       \<or> target_price self \<in> {None, Some (PyDecimal 0), Some (PyFloat 0), Some (PyInt 0)}
       \<or> (\<exists>parsed. target_price self = Some (PyStr [] parsed)))
      \<longrightarrow> calculate_performance self tbl = (Inr None, self, tbl))
   \<and> (execution_price self = Some (PyDecimal e) \<and> e \<noteq> 0
       \<and> target_price self = Some (PyDecimal t) \<and> t \<noteq> 0
      \<longrightarrow> (\<exists>p self' row tbl'.
             calculate_performance self tbl = (Inr (Some (PyDecimal p)), self', tbl')
             \<and> p = (if signal_type self = ''buy'' \<or> signal_type self = ''strong_buy''
                    then (t - e) / e else (e - t) / e)
             \<and> self' = self\<lparr>performance_score := Some (PyDecimal p)\<rparr>
             \<and> row = self\<lparr>performance_score := Some (PyFloat p)\<rparr>
             \<and> row \<in> set tbl'
             \<and> (\<forall>r\<in>set tbl'. sig_id r = sig_id self \<longrightarrow> r = row)
             \<and> (\<forall>r. sig_id r \<noteq> sig_id self \<longrightarrow> (r \<in> set tbl' \<longleftrightarrow> r \<in> set tbl))))"
proof (intro conjI impI)
  assume "execution_price self \<in> {None, Some (PyDecimal 0), Some (PyFloat 0), Some (PyInt 0)}
       \<or> (\<exists>parsed. execution_price self = Some (PyStr [] parsed))
       \<or> target_price self \<in> {None, Some (PyDecimal 0), Some (PyFloat 0), Some (PyInt 0)}
       \<or> (\<exists>parsed. target_price self = Some (PyStr [] parsed))"
  then have "\<not> py_truthy (execution_price self) \<or> \<not> py_truthy (target_price self)"
    unfolding not_py_truthy_iff by blast
  then show "calculate_performance self tbl = (Inr None, self, tbl)"
    by (rule performance_unset)
next
  assume "execution_price self = Some (PyDecimal e) \<and> e \<noteq> 0
       \<and> target_price self = Some (PyDecimal t) \<and> t \<noteq> 0"
  then show "\<exists>p self' row tbl'.
             calculate_performance self tbl = (Inr (Some (PyDecimal p)), self', tbl')
             \<and> p = (if signal_type self = ''buy'' \<or> signal_type self = ''strong_buy''
                    then (t - e) / e else (e - t) / e)
             \<and> self' = self\<lparr>performance_score := Some (PyDecimal p)\<rparr>
             \<and> row = self\<lparr>performance_score := Some (PyFloat p)\<rparr>
             \<and> row \<in> set tbl'
             \<and> (\<forall>r\<in>set tbl'. sig_id r = sig_id self \<longrightarrow> r = row)
             \<and> (\<forall>r. sig_id r \<noteq> sig_id self \<longrightarrow> (r \<in> set tbl' \<longleftrightarrow> r \<in> set tbl))"
    using performance_set [of self e t tbl] by blast
qed

theorem C8_calculate_performance_witness:
  "fst (calculate_performance sample_signal sample_signals) = Inr (Some (PyDecimal (1 / 10)))
   \<and> fst (calculate_performance (sample_signal\<lparr>signal_type := ''sell''\<rparr>) sample_signals)
       = Inr (Some (PyDecimal (- 1 / 10)))
   \<and> calculate_performance (sample_signal\<lparr>execution_price := None\<rparr>) sample_signals
       = (Inr None, sample_signal\<lparr>execution_price := None\<rparr>, sample_signals)"
proof -
  have a: "fst (calculate_performance sample_signal sample_signals)
             = Inr (Some (PyDecimal (1 / 10)))"
    using C8_calculate_performance [where self = sample_signal and e = 100 and t = 110
        and tbl = sample_signals]
    by (auto simp add: sample_signal_def)
  have b: "fst (calculate_performance (sample_signal\<lparr>signal_type := ''sell''\<rparr>) sample_signals)
       = Inr (Some (PyDecimal (- 1 / 10)))"
    using C8_calculate_performance [where self = "sample_signal\<lparr>signal_type := ''sell''\<rparr>"
        and e = 100 and t = 110 and tbl = sample_signals]
    by (auto simp add: sample_signal_def)
  have c: "calculate_performance (sample_signal\<lparr>execution_price := None\<rparr>) sample_signals
       = (Inr None, sample_signal\<lparr>execution_price := None\<rparr>, sample_signals)"
    using C8_calculate_performance [where self = "sample_signal\<lparr>execution_price := None\<rparr>"
        and tbl = sample_signals]
    by simp
  from a b c show ?thesis by blast
qed

section \<open>Missing and zero confidences\<close>

lemma num_or_falsy: "c \<in> {None, Some 0} \<Longrightarrow> num_or c d = d"
  by (auto simp add: num_or_def num_truthy_def)

lemma num_or_half: "num_or (Some (1 / 2)) (1 / 2) = 1 / 2"
  by (simp add: num_or_def num_truthy_def)

lemma gpt_score_loop_append:
  "gpt_score_loop (xs @ ys) acc =
     (case gpt_score_loop xs acc of Inl e \<Rightarrow> Inl e | Inr acc' \<Rightarrow> gpt_score_loop ys acc')"
  by (induction xs acc rule: gpt_score_loop.induct) simp_all

lemma news_impact_loop_append:
  "news_impact_loop (xs @ ys) acc = news_impact_loop ys (news_impact_loop xs acc)"
  by (induction xs acc rule: news_impact_loop.induct) (simp_all add: Let_def)

lemma gpt_score_step_sentiment:
  assumes "sc \<in> {None, Some 0}"
  shows "gpt_score_loop (article\<lparr>gpt_sentiment_confidence := sc\<rparr> # rest) acc =
         gpt_score_loop (article\<lparr>gpt_sentiment_confidence := Some 0.5\<rparr> # rest) acc"
  by (cases acc) (simp add: num_or_falsy [OF assms] num_or_half)

lemma gpt_score_step_impact:
  assumes "ic \<in> {None, Some 0}"
  shows "gpt_score_loop (article\<lparr>gpt_impact_confidence := ic\<rparr> # rest) acc =
         gpt_score_loop (article\<lparr>gpt_impact_confidence := Some 0.5\<rparr> # rest) acc"
  by (cases acc) (simp add: num_or_falsy [OF assms] num_or_half)

lemma news_impact_step:
  assumes "ic \<in> {None, Some 0}"
  shows "news_impact_loop (article\<lparr>gpt_impact_confidence := ic\<rparr> # rest) acc =
         news_impact_loop (article\<lparr>gpt_impact_confidence := Some 0.5\<rparr> # rest) acc"
  by (cases acc) (simp add: Let_def num_or_falsy [OF assms] num_or_half)

lemma gpt_scores_sentiment:
  assumes "sc \<in> {None, Some 0}"
  shows "gpt_score_loop (before @ article\<lparr>gpt_sentiment_confidence := sc\<rparr> # after) acc =
         gpt_score_loop (before @ article\<lparr>gpt_sentiment_confidence := Some 0.5\<rparr> # after) acc"
  by (simp add: gpt_score_loop_append gpt_score_step_sentiment [OF assms] split: sum.splits)

lemma gpt_scores_impact:
  assumes "ic \<in> {None, Some 0}"
  shows "gpt_score_loop (before @ article\<lparr>gpt_impact_confidence := ic\<rparr> # after) acc =
         gpt_score_loop (before @ article\<lparr>gpt_impact_confidence := Some 0.5\<rparr> # after) acc"
  by (simp add: gpt_score_loop_append gpt_score_step_impact [OF assms] split: sum.splits)

lemma news_impact_half:
  assumes "ic \<in> {None, Some 0}"
  shows "calculate_news_impact (before @ article\<lparr>gpt_impact_confidence := ic\<rparr> # after) =
         calculate_news_impact (before @ article\<lparr>gpt_impact_confidence := Some 0.5\<rparr> # after)"
  by (simp add: calculate_news_impact_def news_impact_loop_append news_impact_step [OF assms])

lemma gpt_single_contribution:
  assumes "sc \<in> {None, Some 0}" and "ic \<in> {None, Some 0}"
    and "gpt_sentiment article = Some s" "s \<noteq> []" "gpt_impact article = Some i" "i \<noteq> []"
  shows "gpt_score_loop
           [article\<lparr>gpt_sentiment_confidence := sc, gpt_impact_confidence := ic\<rparr>]
           (total_sentiment, total_impact, analyzed_count) =
         Inr (total_sentiment + sentiment_to_score s * 0.5,
              total_impact + impact_to_score i * 0.5, analyzed_count + 1)"
  using assms(3-6)
  by (simp add: str_truthy_def num_or_falsy [OF assms(1)] num_or_falsy [OF assms(2)])

lemma news_single_contribution:
  assumes "ic \<in> {None, Some 0}" and "gpt_impact article = Some i" "i \<noteq> []"
  shows "calculate_news_impact [article\<lparr>gpt_impact_confidence := ic\<rparr>] =
         impact_to_score i * 0.5"
  using assms(2,3)
  by (simp add: calculate_news_impact_def str_truthy_def Let_def num_or_falsy [OF assms(1)])

text \<open>
  C10: in the scoring loop of the GPT path and in the news-impact aggregation, a
  sentiment or impact confidence that is \<open>None\<close> or \<open>0.0\<close> cannot be told from a
  confidence of \<open>0.5\<close>, wherever the article stands in the list; an analysed article with
  such confidences adds half of its sentiment score and half of its impact score to the
  totals and is counted, and alone it gives a news impact of half its impact score.
\<close>

theorem C10_falsy_confidence_is_half:
  "sc \<in> {None, Some 0} \<and> ic \<in> {None, Some 0} \<longrightarrow>
     gpt_score_loop (before @ article\<lparr>gpt_sentiment_confidence := sc\<rparr> # after) acc =
       gpt_score_loop (before @ article\<lparr>gpt_sentiment_confidence := Some 0.5\<rparr> # after) acc
   \<and> gpt_score_loop (before @ article\<lparr>gpt_impact_confidence := ic\<rparr> # after) acc =
       gpt_score_loop (before @ article\<lparr>gpt_impact_confidence := Some 0.5\<rparr> # after) acc
   \<and> calculate_news_impact (before @ article\<lparr>gpt_impact_confidence := ic\<rparr> # after) =
       calculate_news_impact (before @ article\<lparr>gpt_impact_confidence := Some 0.5\<rparr> # after)
   \<and> (gpt_sentiment article = Some s \<and> s \<noteq> [] \<and> gpt_impact article = Some i \<and> i \<noteq> [] \<longrightarrow>
        gpt_score_loop
          [article\<lparr>gpt_sentiment_confidence := sc, gpt_impact_confidence := ic\<rparr>]
          (total_sentiment, total_impact, analyzed_count) =
        Inr (total_sentiment + sentiment_to_score s * 0.5,
             total_impact + impact_to_score i * 0.5, analyzed_count + 1)
        \<and> calculate_news_impact [article\<lparr>gpt_impact_confidence := ic\<rparr>] =
            impact_to_score i * 0.5)"
  using gpt_scores_sentiment [of sc before article after acc]
    gpt_scores_impact [of ic before article after acc]
    news_impact_half [of ic before article after]
    gpt_single_contribution [of sc ic article s i total_sentiment total_impact analyzed_count]
    news_single_contribution [of ic article i]
  by blast

theorem C10_falsy_confidence_is_half_witness:
  "gpt_score_loop
     [sample_article\<lparr>gpt_sentiment_confidence := Some 0, gpt_impact_confidence := None\<rparr>]
     (0, 0, 0) = Inr (0.35, 0.5, 1)
   \<and> calculate_news_impact [sample_article\<lparr>gpt_impact_confidence := None\<rparr>] = 0.5
   \<and> calculate_news_impact [sample_article\<lparr>gpt_impact_confidence := Some 0\<rparr>] =
       calculate_news_impact [sample_article\<lparr>gpt_impact_confidence := Some 0.5\<rparr>]"
proof -
  have s: "gpt_sentiment sample_article = Some ''positive''"
    and i: "gpt_impact sample_article = Some ''high''"
    by (simp_all add: sample_article_def)
  have a: "gpt_score_loop
     [sample_article\<lparr>gpt_sentiment_confidence := Some 0, gpt_impact_confidence := None\<rparr>]
     (0, 0, 0) = Inr (0.35, 0.5, 1)"
    using C10_falsy_confidence_is_half [where sc = "Some 0" and ic = None
        and article = sample_article and s = "''positive''" and i = "''high''"
        and total_sentiment = 0 and total_impact = 0 and analyzed_count = 0] s i
    by (simp add: sentiment_to_score_def impact_to_score_def)
  have b: "calculate_news_impact [sample_article\<lparr>gpt_impact_confidence := None\<rparr>] = 0.5"
    using C10_falsy_confidence_is_half [where sc = "Some 0" and ic = None
        and article = sample_article and s = "''positive''" and i = "''high''"] s i
    by (simp add: impact_to_score_def)
  have c: "calculate_news_impact [sample_article\<lparr>gpt_impact_confidence := Some 0\<rparr>] =
       calculate_news_impact [sample_article\<lparr>gpt_impact_confidence := Some 0.5\<rparr>]"
    using C10_falsy_confidence_is_half [where sc = "Some 0" and ic = "Some 0"
        and article = sample_article and before = "[]" and after = "[]"]
    by simp
  from a b c show ?thesis by blast
qed

lemma zero_confidence_signal:
  "map_option (\<lambda>s. (signal_type s, confidence s, sentiment_score s))
     (fst (generate_gpt_signal now []
        sample_ticker
        [sample_article\<lparr>gpt_sentiment_confidence := Some 0, gpt_impact_confidence := Some 0\<rparr>]))
   = Some (''hold'', 0.1975, Some 0.35)"
  by (simp add: generate_gpt_signal_def calculate_signal_from_scores_def
      get_sentiment_breakdown_def get_impact_breakdown_def sample_article_def
      str_truthy_def num_or_def num_truthy_def sentiment_to_score_def impact_to_score_def
      Let_def)

section \<open>Selection of recent articles\<close>

lemma str_contains_sublist: "str_contains s sub \<longleftrightarrow> sublist sub s"
  by (induction s) (simp_all add: sublist_Cons_right)

lemma article_mentions_iff:
  "article_mentions ticker_symbol a \<longleftrightarrow>
     sublist (map upper_char ticker_symbol) (map upper_char (art_title a))
     \<or> sublist (map upper_char ticker_symbol) (map upper_char (art_content a))
     \<or> (\<exists>s. art_summary a = Some s \<and> sublist (map upper_char ticker_symbol) (map upper_char s))"
  by (cases "art_summary a") (simp_all add: article_mentions_def icontains_def str_contains_sublist)

lemma recent_articles_eq:
  "get_recent_articles now tbl ticker_symbol 7 =
     take 10 (sort_key (\<lambda>a. - scraped_date a)
       (filter (\<lambda>a. article_mentions ticker_symbol a \<and> now - 604800 \<le> scraped_date a) tbl))"
  by (simp add: get_recent_articles_def Let_def)

text \<open>Sorting neither loses nor duplicates a row.\<close>

lemma count_list_insort_key: "count_list (insort_key f x xs) a = count_list (x # xs) a"
  by (induction xs) auto

lemma count_list_sort_key: "count_list (sort_key f xs) a = count_list xs a"
  by (induction xs) (simp_all add: count_list_insort_key)

lemma count_list_take_drop: "count_list (take n ys) a + count_list (drop n ys) a = count_list ys a"
  by (metis append_take_drop_id count_list_append)

lemma take_sorted_desc:
  fixes ys :: "news_article list"
  assumes "sorted (map (\<lambda>a. - scraped_date a) ys)"
    and "i < j" and "j < length (take n ys)"
  shows "scraped_date (take n ys ! j) \<le> scraped_date (take n ys ! i)"
proof -
  from assms(2,3) have j: "j < length ys" and i: "i < length ys" and jn: "j < n" by simp_all
  from assms(1) i j \<open>i < j\<close>
  have "map (\<lambda>a. - scraped_date a) ys ! i \<le> map (\<lambda>a. - scraped_date a) ys ! j"
    by (intro sorted_nth_mono) simp_all
  with i j have "scraped_date (ys ! j) \<le> scraped_date (ys ! i)" by simp
  with jn \<open>i < j\<close> show ?thesis by simp
qed

lemma cut_off_not_newer:
  fixes ys :: "news_article list"
  assumes srt: "sorted (map (\<lambda>a. - scraped_date a) ys)"
    and b: "b \<in> set (drop n ys)" and a: "a \<in> set (take n ys)"
  shows "scraped_date b \<le> scraped_date a"
proof -
  from srt have "sorted (map (\<lambda>a. - scraped_date a) (take n ys) @ map (\<lambda>a. - scraped_date a) (drop n ys))"
    by (metis append_take_drop_id map_append)
  then have "\<forall>x\<in>set (map (\<lambda>a. - scraped_date a) (take n ys)).
               \<forall>y\<in>set (map (\<lambda>a. - scraped_date a) (drop n ys)). x \<le> y"
    by (simp add: sorted_append)
  with a b have "- scraped_date a \<le> - scraped_date b" by simp
  then show ?thesis by simp
qed

lemma dropped_not_newer:
  fixes ys :: "news_article list"
  assumes srt: "sorted (map (\<lambda>a. - scraped_date a) ys)"
    and b: "b \<in> set ys" "b \<notin> set (take n ys)" and a: "a \<in> set (take n ys)"
  shows "scraped_date b \<le> scraped_date a"
proof -
  have "set ys = set (take n ys) \<union> set (drop n ys)"
    by (metis append_take_drop_id set_append)
  with b have "b \<in> set (drop n ys)" by blast
  then show ?thesis using a by (rule cut_off_not_newer [OF srt])
qed

text \<open>
  C3, as stated, fails: the lookup is \<open>icontains\<close>, which ignores case. The sample
  article mentions \<open>aapl\<close> in lower case only; neither its title nor its content contains
  \<open>AAPL\<close> and it has no summary, yet it is selected for the ticker \<open>AAPL\<close>.
\<close>

theorem C3_counterexample:
  "\<not> str_contains (art_title sample_article) ''AAPL''
   \<and> \<not> str_contains (art_content sample_article) ''AAPL''
   \<and> art_summary sample_article = None
   \<and> get_recent_articles 1000100 [sample_article] ''AAPL'' 7 = [sample_article]"
  by (simp add: get_recent_articles_def article_mentions_def icontains_def upper_char_def
      sample_article_def)

text \<open>
  C3 (amended): for every ticker symbol the selection returns at most 10 articles, all of
  them scraped within the last 7 days and mentioning the symbol, newest first. The rows
  returned and the qualifying rows cut off make up the qualifying rows of the table, each
  as often as it stands there: no row is returned twice or invented, none of the rows cut
  off is more recent than a row returned, and nothing is cut off when at most 10 rows
  qualify. An article mentions the symbol if and only if its title, content or summary
  contains the symbol as a substring without regard to case.
\<close>

theorem C3_get_recent_articles:
  "length (get_recent_articles now tbl ticker_symbol 7) =
     min 10 (length (filter (\<lambda>a. article_mentions ticker_symbol a \<and> now - 604800 \<le> scraped_date a) tbl))
   \<and> (\<forall>a\<in>set (get_recent_articles now tbl ticker_symbol 7).
         a \<in> set tbl \<and> article_mentions ticker_symbol a \<and> now - 604800 \<le> scraped_date a)
   \<and> (\<forall>i j. i < j \<and> j < length (get_recent_articles now tbl ticker_symbol 7) \<longrightarrow>
         scraped_date (get_recent_articles now tbl ticker_symbol 7 ! j)
           \<le> scraped_date (get_recent_articles now tbl ticker_symbol 7 ! i))
   \<and> (\<forall>b\<in>set tbl.
         article_mentions ticker_symbol b \<and> now - 604800 \<le> scraped_date b
         \<and> b \<notin> set (get_recent_articles now tbl ticker_symbol 7) \<longrightarrow>
         (\<forall>a\<in>set (get_recent_articles now tbl ticker_symbol 7). scraped_date b \<le> scraped_date a))
   \<and> (article_mentions ticker_symbol c \<longleftrightarrow>
         sublist (map upper_char ticker_symbol) (map upper_char (art_title c))
         \<or> sublist (map upper_char ticker_symbol) (map upper_char (art_content c))
         \<or> (\<exists>s. art_summary c = Some s \<and> sublist (map upper_char ticker_symbol) (map upper_char s)))
   \<and> (\<exists>cut_off.
         (\<forall>a. count_list (get_recent_articles now tbl ticker_symbol 7) a + count_list cut_off a =
               count_list (filter (\<lambda>a. article_mentions ticker_symbol a
                                        \<and> now - 604800 \<le> scraped_date a) tbl) a)
         \<and> (\<forall>b\<in>set cut_off. \<forall>a\<in>set (get_recent_articles now tbl ticker_symbol 7).
               scraped_date b \<le> scraped_date a))
   \<and> (\<forall>a. count_list (get_recent_articles now tbl ticker_symbol 7) a \<le>
             count_list (filter (\<lambda>a. article_mentions ticker_symbol a
                                      \<and> now - 604800 \<le> scraped_date a) tbl) a)
   \<and> (length (filter (\<lambda>a. article_mentions ticker_symbol a \<and> now - 604800 \<le> scraped_date a) tbl)
         \<le> 10 \<longrightarrow>
       (\<forall>a. count_list (get_recent_articles now tbl ticker_symbol 7) a =
             count_list (filter (\<lambda>a. article_mentions ticker_symbol a
                                      \<and> now - 604800 \<le> scraped_date a) tbl) a))"
proof -
  define xs where "xs = filter (\<lambda>a. article_mentions ticker_symbol a \<and> now - 604800 \<le> scraped_date a) tbl"
  define ys where "ys = sort_key (\<lambda>a. - scraped_date a) xs"
  have res: "get_recent_articles now tbl ticker_symbol 7 = take 10 ys"
    by (simp add: recent_articles_eq xs_def ys_def)
  have set_ys: "set ys = set xs" by (simp add: ys_def)
  have srt: "sorted (map (\<lambda>a. - scraped_date a) ys)" by (simp add: ys_def)
  have cnt: "count_list (take 10 ys) a + count_list (drop 10 ys) a = count_list xs a" for a
    using count_list_take_drop [of 10 ys a] by (simp add: ys_def count_list_sort_key)
  have len: "length (take 10 ys) = min 10 (length xs)"
    by (simp add: ys_def min.commute)
  have sel: "\<forall>a\<in>set (take 10 ys).
         a \<in> set tbl \<and> article_mentions ticker_symbol a \<and> now - 604800 \<le> scraped_date a"
  proof
    fix a assume "a \<in> set (take 10 ys)"
    then have "a \<in> set xs" using set_ys by (auto dest: in_set_takeD)
    then show "a \<in> set tbl \<and> article_mentions ticker_symbol a \<and> now - 604800 \<le> scraped_date a"
      by (simp add: xs_def)
  qed
  have ord: "\<forall>i j. i < j \<and> j < length (take 10 ys) \<longrightarrow>
         scraped_date (take 10 ys ! j) \<le> scraped_date (take 10 ys ! i)"
    using take_sorted_desc [OF srt] by blast
  have rest: "\<forall>b\<in>set tbl.
         article_mentions ticker_symbol b \<and> now - 604800 \<le> scraped_date b \<and> b \<notin> set (take 10 ys) \<longrightarrow>
         (\<forall>a\<in>set (take 10 ys). scraped_date b \<le> scraped_date a)"
  proof (intro ballI impI)
    fix b a
    assume "b \<in> set tbl"
      and "article_mentions ticker_symbol b \<and> now - 604800 \<le> scraped_date b \<and> b \<notin> set (take 10 ys)"
      and a: "a \<in> set (take 10 ys)"
    then have "b \<in> set ys" and "b \<notin> set (take 10 ys)" by (simp_all add: set_ys xs_def)
    then show "scraped_date b \<le> scraped_date a" using a by (rule dropped_not_newer [OF srt])
  qed
  have split: "\<exists>cut_off.
         (\<forall>a. count_list (take 10 ys) a + count_list cut_off a = count_list xs a)
         \<and> (\<forall>b\<in>set cut_off. \<forall>a\<in>set (take 10 ys). scraped_date b \<le> scraped_date a)"
  proof (intro exI conjI allI ballI)
    fix a show "count_list (take 10 ys) a + count_list (drop 10 ys) a = count_list xs a"
      by (rule cnt)
  next
    fix b a assume "b \<in> set (drop 10 ys)" "a \<in> set (take 10 ys)"
    then show "scraped_date b \<le> scraped_date a" by (rule cut_off_not_newer [OF srt])
  qed
  have once: "\<forall>a. count_list (take 10 ys) a \<le> count_list xs a"
  proof
    fix a show "count_list (take 10 ys) a \<le> count_list xs a" using cnt [of a] by simp
  qed
  have full: "length xs \<le> 10 \<longrightarrow> (\<forall>a. count_list (take 10 ys) a = count_list xs a)"
  proof (intro impI allI)
    fix a assume "length xs \<le> 10"
    then have "take 10 ys = ys" by (simp add: ys_def)
    then show "count_list (take 10 ys) a = count_list xs a"
      by (simp add: ys_def count_list_sort_key)
  qed
  show ?thesis
    unfolding res xs_def [symmetric]
    using len sel ord rest article_mentions_iff [of ticker_symbol c] split once full
    by (intro conjI) assumption+
qed

theorem C3_get_recent_articles_witness:
  "map art_id (get_recent_articles 1000100 sample_articles ''AAPL'' 7) = [4, 1]
   \<and> article_mentions ''AAPL'' sample_article
   \<and> length (get_recent_articles 1000100 sample_articles ''AAPL'' 7) = 2
   \<and> count_list (get_recent_articles 1000100 sample_articles ''AAPL'' 7) sample_article = 1"
proof -
  note c3 = C3_get_recent_articles [where now = 1000100 and tbl = sample_articles
      and ticker_symbol = "''AAPL''" and c = sample_article]
  have ids: "map art_id (get_recent_articles 1000100 sample_articles ''AAPL'' 7) = [4, 1]"
    by (simp add: get_recent_articles_def article_mentions_def icontains_def upper_char_def
        sample_articles_def sample_article_def)
  have mem: "sample_article \<in> set (get_recent_articles 1000100 sample_articles ''AAPL'' 7)"
    by (simp add: get_recent_articles_def article_mentions_def icontains_def upper_char_def
        sample_articles_def sample_article_def)
  from c3 mem have m: "article_mentions ''AAPL'' sample_article" by blast
  have f: "filter (\<lambda>a. article_mentions ''AAPL'' a \<and> 1000100 - 604800 \<le> scraped_date a)
          sample_articles =
        [sample_article,
         sample_article\<lparr>art_id := 4, art_content := '''', art_summary := Some ''AAPL beats'',
                       scraped_date := 1000050\<rparr>]"
    by (simp add: article_mentions_def icontains_def upper_char_def
        sample_articles_def sample_article_def)
  from c3 have "length (get_recent_articles 1000100 sample_articles ''AAPL'' 7) =
      min 10 (length (filter (\<lambda>a. article_mentions ''AAPL'' a \<and> 1000100 - 604800 \<le> scraped_date a)
          sample_articles))"
    by (rule conjunct1)
  with f have l: "length (get_recent_articles 1000100 sample_articles ''AAPL'' 7) = 2"
    by simp
  from c3 have "length (filter (\<lambda>a. article_mentions ''AAPL'' a \<and> 1000100 - 604800 \<le> scraped_date a)
          sample_articles) \<le> 10 \<longrightarrow>
       (\<forall>a. count_list (get_recent_articles 1000100 sample_articles ''AAPL'' 7) a =
             count_list (filter (\<lambda>a. article_mentions ''AAPL'' a
                                      \<and> 1000100 - 604800 \<le> scraped_date a) sample_articles) a)"
    by blast
  with f have "count_list (get_recent_articles 1000100 sample_articles ''AAPL'' 7) sample_article =
      count_list [sample_article,
         sample_article\<lparr>art_id := 4, art_content := '''', art_summary := Some ''AAPL beats'',
                       scraped_date := 1000050\<rparr>] sample_article"
    by simp
  then have c: "count_list (get_recent_articles 1000100 sample_articles ''AAPL'' 7) sample_article = 1"
    by (simp add: sample_article_def)
  from ids m l c show ?thesis by blast
qed

section \<open>The webhook attempt loop\<close>

declare attempt_loop.simps [simp del]
declare str_nat.simps [simp del]

lemma save_delivery_stored:
  "d \<in> set (save_delivery d tbl)
   \<and> (\<forall>r\<in>set (save_delivery d tbl). dlv_id r = dlv_id d \<longrightarrow> r = d)"
  by (auto simp add: save_delivery_def image_iff)

lemma wait_before_retry_props:
  assumes "wait_before_retry attempt d w = (d', w')"
    and "d \<in> set (deliveries w) \<and> (\<forall>r\<in>set (deliveries w). dlv_id r = dlv_id d \<longrightarrow> r = d)"
  shows "delivery_attempts d' = delivery_attempts d \<and> dlv_id d' = dlv_id d
         \<and> dlv_status d' = dlv_status d \<and> http_log w' = http_log w
         \<and> d' \<in> set (deliveries w')
         \<and> (\<forall>r\<in>set (deliveries w'). dlv_id r = dlv_id d \<longrightarrow> r = d')"
proof (cases "attempt < max_retry_attempts - 1")
  case True
  define d1 where "d1 = d\<lparr>next_retry := Some (clock w + int (retry_delays ! attempt))\<rparr>"
  have id: "dlv_id d1 = dlv_id d" by (simp add: d1_def)
  from True assms(1) have "d' = d1" and w': "deliveries w' = save_delivery d1 (deliveries w)"
    and "http_log w' = http_log w"
    by (auto simp add: wait_before_retry_def Let_def d1_def)
  then show ?thesis
    using save_delivery_stored [of d1 "deliveries w"] id by (simp add: d1_def)
next
  case False
  with assms show ?thesis by (simp add: wait_before_retry_def)
qed

text \<open>What one pass through the loop body does, whatever the endpoint answers.\<close>

lemma webhook_attempt_props:
  assumes "webhook_attempt post subscriber attempt d w = (returned, d', w')"
  shows "delivery_attempts d' = delivery_attempts d + 1 \<and> dlv_id d' = dlv_id d
         \<and> (returned \<longrightarrow> dlv_status d' = ''delivered'')
         \<and> http_log w' = http_log w @ [webhook_url subscriber]
         \<and> d' \<in> set (deliveries w')
         \<and> (\<forall>r\<in>set (deliveries w'). dlv_id r = dlv_id d \<longrightarrow> r = d')"
proof -
  define d1 where "d1 = d\<lparr>delivery_attempts := delivery_attempts d + 1,
                               last_attempt := Some (clock w),
                               dlv_status := (if attempt > 0 then ''retrying'' else ''pending'')\<rparr>"
  define w2 where "w2 = w\<lparr>deliveries := save_delivery d1 (deliveries w),
                           http_log := http_log w @ [webhook_url subscriber]\<rparr>"
  define response where "response = post (webhook_url subscriber) (length (http_log w))"
  have after_error: "delivery_attempts d' = delivery_attempts d + 1 \<and> dlv_id d' = dlv_id d
         \<and> (returned \<longrightarrow> dlv_status d' = ''delivered'')
         \<and> http_log w' = http_log w @ [webhook_url subscriber]
         \<and> d' \<in> set (deliveries w')
         \<and> (\<forall>r\<in>set (deliveries w'). dlv_id r = dlv_id d \<longrightarrow> r = d')"
    if res: "(returned, d', w') =
          (False, wait_before_retry attempt (d1\<lparr>error_message := msg\<rparr>)
             (w2\<lparr>deliveries := save_delivery (d1\<lparr>error_message := msg\<rparr>) (deliveries w2)\<rparr>))"
    for msg
  proof -
    define d2 where "d2 = d1\<lparr>error_message := msg\<rparr>"
    define w3 where "w3 = w2\<lparr>deliveries := save_delivery d2 (deliveries w2)\<rparr>"
    from res have r: "\<not> returned" and wb: "wait_before_retry attempt d2 w3 = (d', w')"
      by (simp_all add: d2_def w3_def)
    have st: "d2 \<in> set (deliveries w3) \<and> (\<forall>r\<in>set (deliveries w3). dlv_id r = dlv_id d2 \<longrightarrow> r = d2)"
      using save_delivery_stored [of d2 "deliveries w2"] by (simp add: w3_def)
    from wait_before_retry_props [OF wb st] r show ?thesis
      by (simp add: d2_def d1_def w3_def w2_def)
  qed
  show ?thesis
  proof (cases response)
    case (Response status_code body)
    show ?thesis
    proof (cases "status_code = 200")
      case True
      define d2 where "d2 = d1\<lparr>dlv_status := ''delivered'', delivered_at := Some (clock w2),
                                 error_message := ''''\<rparr>"
      from Response True
      have "webhook_attempt post subscriber attempt d w =
              (True, d2, w2\<lparr>deliveries := save_delivery d2 (deliveries w2)\<rparr>)"
        by (simp add: webhook_attempt_def Let_def response_def d1_def w2_def d2_def)
      with assms
      have "returned" "d' = d2" "deliveries w' = save_delivery d2 (deliveries w2)"
        "http_log w' = http_log w2"
        by auto
      then show ?thesis
        using save_delivery_stored [of d2 "deliveries w2"]
        by (simp add: d2_def d1_def w2_def)
    next
      case False
      with Response
      have "webhook_attempt post subscriber attempt d w =
          (False, wait_before_retry attempt
             (d1\<lparr>error_message := ''HTTP '' @ str_nat status_code @ '': '' @ body\<rparr>)
             (w2\<lparr>deliveries := save_delivery
                 (d1\<lparr>error_message := ''HTTP '' @ str_nat status_code @ '': '' @ body\<rparr>)
                 (deliveries w2)\<rparr>))"
        by (simp add: webhook_attempt_def Let_def response_def d1_def w2_def)
      then show ?thesis unfolding assms by (rule after_error)
    qed
  next
    case (RequestException e)
    then
    have "webhook_attempt post subscriber attempt d w =
          (False, wait_before_retry attempt (d1\<lparr>error_message := ''Request error: '' @ e\<rparr>)
             (w2\<lparr>deliveries := save_delivery (d1\<lparr>error_message := ''Request error: '' @ e\<rparr>)
                 (deliveries w2)\<rparr>))"
      by (simp add: webhook_attempt_def Let_def response_def d1_def w2_def)
    then show ?thesis unfolding assms by (rule after_error)
  qed
qed

text \<open>A pass returns with success only on a response with status 200.\<close>

lemma webhook_attempt_no_200:
  assumes "\<forall>n body. post (webhook_url subscriber) n \<noteq> Response 200 body"
  shows "\<not> fst (webhook_attempt post subscriber attempt d w)"
proof (cases "post (webhook_url subscriber) (length (http_log w))")
  case (Response status_code body)
  with assms have "status_code \<noteq> 200" by metis
  with Response show ?thesis by (simp add: webhook_attempt_def Let_def)
next
  case (RequestException e)
  then show ?thesis by (simp add: webhook_attempt_def Let_def)
qed

lemma attempt_loop_step:
  assumes "attempt < max_retry_attempts"
    and "webhook_attempt post subscriber attempt d w = (returned, d1, w1)"
  shows "attempt_loop post subscriber attempt d w =
           (if returned then (True, d1, w1) else attempt_loop post subscriber (attempt + 1) d1 w1)"
  using assms by (subst attempt_loop.simps) simp

lemma attempt_loop_exhausted:
  assumes "\<not> attempt < max_retry_attempts"
  shows "attempt_loop post subscriber attempt d w =
           (False, d\<lparr>dlv_status := ''failed''\<rparr>,
            w\<lparr>deliveries := save_delivery (d\<lparr>dlv_status := ''failed''\<rparr>) (deliveries w)\<rparr>)"
  using assms by (subst attempt_loop.simps) (simp add: Let_def)

text \<open>
  The loop entered at \<open>attempt\<close>: it ends with the record delivered, or with the record
  failed after one POST and one increment of the counter for each remaining value of the
  loop variable; either way the row of the record holds the record's final state.
\<close>

lemma attempt_loop_props:
  assumes "attempt \<le> max_retry_attempts"
    and "attempt_loop post subscriber attempt d w = (success, d', w')"
  shows "dlv_id d' = dlv_id d
         \<and> d' \<in> set (deliveries w')
         \<and> (\<forall>r\<in>set (deliveries w'). dlv_id r = dlv_id d \<longrightarrow> r = d')
         \<and> (success \<longrightarrow> dlv_status d' = ''delivered'')
         \<and> (\<not> success \<longrightarrow>
               dlv_status d' = ''failed''
               \<and> delivery_attempts d' = delivery_attempts d + (max_retry_attempts - attempt)
               \<and> http_log w' =
                   http_log w @ replicate (max_retry_attempts - attempt) (webhook_url subscriber))"
  using assms
proof (induction "max_retry_attempts - attempt" arbitrary: attempt d w)
  case 0
  then have ex: "\<not> attempt < max_retry_attempts" and eq: "max_retry_attempts - attempt = 0"
    by simp_all
  from "0.prems"(2) attempt_loop_exhausted [OF ex, of post subscriber d w]
  have "success = False" "d' = d\<lparr>dlv_status := ''failed''\<rparr>"
    "w' = w\<lparr>deliveries := save_delivery (d\<lparr>dlv_status := ''failed''\<rparr>) (deliveries w)\<rparr>"
    by auto
  then show ?case
    using save_delivery_stored [of "d\<lparr>dlv_status := ''failed''\<rparr>" "deliveries w"] eq
    by simp
next
  case (Suc k)
  then have lt: "attempt < max_retry_attempts" by simp
  obtain returned d1 w1 where att: "webhook_attempt post subscriber attempt d w = (returned, d1, w1)"
    by (metis prod_cases3)
  note p1 = webhook_attempt_props [OF att]
  note step = attempt_loop_step [OF lt att]
  show ?case
  proof (cases returned)
    case True
    with step Suc.prems(2) have "success" "d' = d1" "w' = w1" by simp_all
    with p1 True show ?thesis by simp
  next
    case False
    with step Suc.prems(2)
    have rec: "attempt_loop post subscriber (attempt + 1) d1 w1 = (success, d', w')" by simp
    from Suc.hyps(2) lt have k: "k = max_retry_attempts - (attempt + 1)" by simp
    from lt have le: "attempt + 1 \<le> max_retry_attempts" by simp
    note ih = Suc.hyps(1) [OF k le rec]
    from lt have cnt: "max_retry_attempts - attempt = Suc (max_retry_attempts - (attempt + 1))"
      by simp
    from ih p1 show ?thesis
      by (simp add: cnt replicate_append_same [symmetric] del: replicate.simps)
        (simp add: replicate_append_same)
  qed
qed

lemma attempt_loop_no_200:
  assumes no200: "\<forall>n body. post (webhook_url subscriber) n \<noteq> Response 200 body"
  shows "\<not> fst (attempt_loop post subscriber attempt d w)"
proof (induction "max_retry_attempts - attempt" arbitrary: attempt d w)
  case 0
  then have "\<not> attempt < max_retry_attempts" by simp
  then show ?case by (simp add: attempt_loop_exhausted)
next
  case (Suc k)
  then have lt: "attempt < max_retry_attempts" by simp
  obtain returned d1 w1 where att: "webhook_attempt post subscriber attempt d w = (returned, d1, w1)"
    by (metis prod_cases3)
  from webhook_attempt_no_200 [of post subscriber attempt d w] no200 att
  have "\<not> returned" by simp
  moreover from Suc.hyps(2) lt have "k = max_retry_attempts - (attempt + 1)" by simp
  ultimately show ?case
    using attempt_loop_step [OF lt att] Suc.hyps(1) [of "attempt + 1" d1 w1] by simp
qed

lemma deliver_webhook_result:
  assumes "deliver_webhook post subscriber payload delivery w = (Inr success, delivery', w')"
  shows "json_serializable payload
         \<and> attempt_loop post subscriber 0 delivery w = (success, delivery', w')"
  using assms by (auto simp add: deliver_webhook_def split: if_splits prod.splits)

lemma deliver_webhook_all_fail:
  assumes ser: "json_serializable payload"
    and no200: "\<forall>n body. post (webhook_url subscriber) n \<noteq> Response 200 body"
  shows "\<exists>delivery' w'.
           deliver_webhook post subscriber payload delivery w = (Inr False, delivery', w')
           \<and> dlv_status delivery' = ''failed''
           \<and> delivery_attempts delivery' = delivery_attempts delivery + 5
           \<and> http_log w' = http_log w @ replicate 5 (webhook_url subscriber)
           \<and> delivery' \<in> set (deliveries w')
           \<and> (\<forall>r\<in>set (deliveries w'). dlv_id r = dlv_id delivery \<longrightarrow> r = delivery')"
proof -
  obtain success d' w' where loop: "attempt_loop post subscriber 0 delivery w = (success, d', w')"
    by (metis prod_cases3)
  from attempt_loop_no_200 [of post subscriber 0 delivery w] no200 loop
  have f: "\<not> success" by simp
  from attempt_loop_props [OF _ loop] f
  have "dlv_status d' = ''failed''"
    "delivery_attempts d' = delivery_attempts delivery + 5"
    "http_log w' = http_log w @ replicate 5 (webhook_url subscriber)"
    "d' \<in> set (deliveries w')"
    "\<forall>r\<in>set (deliveries w'). dlv_id r = dlv_id delivery \<longrightarrow> r = d'"
    by (simp_all add: max_retry_attempts_def)
  moreover from ser loop f
  have "deliver_webhook post subscriber payload delivery w = (Inr False, d', w')"
    by (simp add: deliver_webhook_def)
  ultimately show ?thesis by blast
qed

lemma sample_payload_serializable: "json_serializable sample_payload"
  by (simp add: sample_payload_def)

lemma sample_all_fail:
  "\<exists>d' w'. deliver_webhook always_500 sample_subscriber sample_payload sample_delivery
              sample_world = (Inr False, d', w')"
  using deliver_webhook_all_fail [of sample_payload always_500 sample_subscriber
      sample_delivery sample_world]
  by (auto simp add: sample_payload_serializable always_500_def)

text \<open>
  The loop on its own: for a payload that \<open>json.dumps\<close> accepts, a record whose counter
  starts at 0 and an endpoint that never answers with status 200, \_deliver\_webhook sends
  exactly 5 POSTs, leaves the record failed with 5 attempts, stores it and returns \<open>False\<close>.
\<close>

lemma retry_exhaustion:
  assumes "json_serializable payload"
    and "delivery_attempts delivery = 0"
    and "\<forall>n body. post (webhook_url subscriber) n \<noteq> Response 200 body"
  shows "\<exists>delivery' w'.
           deliver_webhook post subscriber payload delivery w = (Inr False, delivery', w')
           \<and> dlv_status delivery' = ''failed''
           \<and> delivery_attempts delivery' = 5
           \<and> http_log w' = http_log w @ replicate 5 (webhook_url subscriber)
           \<and> delivery' \<in> set (deliveries w')
           \<and> (\<forall>r\<in>set (deliveries w'). dlv_id r = dlv_id delivery \<longrightarrow> r = delivery')"
  using deliver_webhook_all_fail [of payload post subscriber delivery w] assms by simp

text \<open>
  C9: when \_deliver\_webhook returns \<open>False\<close>, that is, when its attempt loop has run to
  the end, the record is failed with delivery\_attempts at least 5 and stored as such; the
  queryset of retry\_failed\_deliveries, which asks for fewer than 5 attempts, then selects
  no row of that record, at whatever time the sweep runs.
\<close>

theorem C9_failed_not_retried:
  assumes "deliver_webhook post subscriber payload delivery w = (Inr False, delivery', w')"
  shows "dlv_status delivery' = ''failed''
         \<and> 5 \<le> delivery_attempts delivery'
         \<and> delivery' \<in> set (deliveries w')
         \<and> (\<forall>r\<in>set (deliveries w'). dlv_id r = dlv_id delivery \<longrightarrow> r = delivery')
         \<and> (\<forall>now. \<not> retry_due now delivery')
         \<and> (\<forall>t. dlv_id delivery \<notin> set (map dlv_id (failed_deliveries (w'\<lparr>clock := t\<rparr>))))"
proof -
  from deliver_webhook_result [OF assms]
  have loop: "attempt_loop post subscriber 0 delivery w = (False, delivery', w')" by simp
  from attempt_loop_props [OF _ loop]
  have st: "dlv_status delivery' = ''failed''"
    and cnt: "delivery_attempts delivery' = delivery_attempts delivery + 5"
    and mem: "delivery' \<in> set (deliveries w')"
    and row: "\<forall>r\<in>set (deliveries w'). dlv_id r = dlv_id delivery \<longrightarrow> r = delivery'"
    by (simp_all add: max_retry_attempts_def)
  from cnt have ge: "5 \<le> delivery_attempts delivery'" by simp
  then have nd: "\<forall>now. \<not> retry_due now delivery'"
    by (simp add: retry_due_def max_retry_attempts_def)
  have "\<forall>t. dlv_id delivery \<notin> set (map dlv_id (failed_deliveries (w'\<lparr>clock := t\<rparr>)))"
  proof (intro allI notI)
    fix t assume "dlv_id delivery \<in> set (map dlv_id (failed_deliveries (w'\<lparr>clock := t\<rparr>)))"
    then obtain r where "r \<in> set (deliveries w')" "retry_due t r" "dlv_id r = dlv_id delivery"
      by (auto simp add: failed_deliveries_def)
    with row nd show False by blast
  qed
  with st ge mem row nd show ?thesis by blast
qed

theorem C9_failed_not_retried_witness:
  "fst (deliver_webhook always_500 sample_subscriber sample_payload sample_delivery sample_world)
     = Inr False
   \<and> 5 \<le> delivery_attempts (fst (snd (deliver_webhook always_500 sample_subscriber
        sample_payload sample_delivery sample_world)))
   \<and> \<not> retry_due 5000 (fst (snd (deliver_webhook always_500 sample_subscriber
        sample_payload sample_delivery sample_world)))
   \<and> 1 \<notin> set (map dlv_id (failed_deliveries
        ((snd (snd (deliver_webhook always_500 sample_subscriber sample_payload
            sample_delivery sample_world)))\<lparr>clock := 5000\<rparr>)))"
proof -
  obtain d' w' where r: "deliver_webhook always_500 sample_subscriber sample_payload
      sample_delivery sample_world = (Inr False, d', w')"
    using sample_all_fail by blast
  have i: "dlv_id sample_delivery = 1" by (simp add: sample_delivery_def)
  from C9_failed_not_retried [OF r] i show ?thesis by (simp add: r)
qed

section \<open>Delivery to one subscriber\<close>

text \<open>
  The payload that \_prepare\_signal\_payload builds holds the MarketTicker and the
  SignalMetadata instance themselves, so \<open>json.dumps\<close> rejects it: on the path through
  deliver\_signal\_to\_subscriber and retry\_failed\_deliveries the attempt loop is not
  reached. The properties of the loop above are those of \_deliver\_webhook for a payload
  that can be serialised.
\<close>

lemma prepared_payload_not_serializable:
  assumes "prepare_signal_payload signal = Inr payload"
  shows "\<not> json_serializable payload"
  using assms by (auto simp add: prepare_signal_payload_def split: option.splits)

lemma prepared_payload_raises:
  assumes "prepare_signal_payload signal = Inr payload"
  shows "deliver_webhook post subscriber payload delivery w = (Inl TypeError, delivery, w)"
  using prepared_payload_not_serializable [OF assms] by (simp add: deliver_webhook_def)

text \<open>
  C4 does not hold of the code: the endpoint answers every request with HTTP 500 and the
  record of the pair is pending with delivery\_attempts = 0, yet the call sends no POST and
  leaves the record as it is. For a signal with a metadata row \<open>json.dumps\<close> raises
  TypeError on the payload before the loop is entered; for a signal without one, building
  the payload raises RelatedObjectDoesNotExist.
\<close>

theorem C4_no_attempt_is_made:
  "deliveries sample_world = [sample_delivery]
   \<and> dlv_status sample_delivery = ''pending''
   \<and> delivery_attempts sample_delivery = 0
   \<and> http_log sample_world = []
   \<and> always_500 (webhook_url sample_subscriber) 0 = Response 500 ''Internal Server Error''
   \<and> deliver_signal_to_subscriber always_500 (sample_signal\<lparr>sig_metadata := Some 1\<rparr>)
        sample_subscriber sample_world = (Inl TypeError, sample_world)
   \<and> deliver_signal_to_subscriber always_500 sample_signal sample_subscriber sample_world
      = (Inl RelatedObjectDoesNotExist, sample_world)"
  by (simp add: deliver_signal_to_subscriber_def get_or_create_delivery_def
      prepare_signal_payload_def deliver_webhook_def always_500_def
      sample_world_def sample_delivery_def sample_signal_def sample_subscriber_def)

lemma already_delivered:
  assumes url: "webhook_url subscriber \<noteq> []"
    and row: "filter (\<lambda>d. dlv_signal d = sig_id signal \<and> dlv_subscriber d = sub_id subscriber)
                (deliveries w) = [delivery]"
    and st: "dlv_status delivery = ''delivered''"
  shows "deliver_signal_to_subscriber post signal subscriber w = (Inr True, w)"
  using url row st
  by (simp add: deliver_signal_to_subscriber_def get_or_create_delivery_def)

lemma no_webhook_url:
  assumes "webhook_url subscriber = []"
  shows "deliver_signal_to_subscriber post signal subscriber w = (Inr False, w)"
  using assms by (simp add: deliver_signal_to_subscriber_def)

text \<open>
  C5, as stated, fails: the check for a webhook URL comes before the look-up of the
  delivery record. For a subscriber whose URL is empty the call returns \<open>False\<close>, also
  when the record of the pair is already delivered.
\<close>

theorem C5_counterexample:
  "map dlv_status
     (filter (\<lambda>d. dlv_signal d = sig_id sample_signal
                 \<and> dlv_subscriber d = sub_id (sample_subscriber\<lparr>webhook_url := ''''\<rparr>))
        (deliveries delivered_world)) = [''delivered'']
   \<and> deliver_signal_to_subscriber always_500 sample_signal
        (sample_subscriber\<lparr>webhook_url := ''''\<rparr>) delivered_world
      = (Inr False, delivered_world)"
  by (simp add: deliver_signal_to_subscriber_def delivered_world_def sample_world_def
      sample_delivery_def sample_signal_def sample_subscriber_def)

text \<open>
  C5 (amended): for every signal and every subscriber with a non-empty webhook URL whose
  delivery record for the pair has status delivered, deliver\_signal\_to\_subscriber sends
  no request, changes no record and returns \<open>True\<close>; a second call right after it does
  the same. For a subscriber with an empty webhook URL the call sends no request, changes
  no record and returns \<open>False\<close>.
\<close>

theorem C5_idempotent_delivery:
  "(webhook_url subscriber \<noteq> []
      \<and> filter (\<lambda>d. dlv_signal d = sig_id signal \<and> dlv_subscriber d = sub_id subscriber)
           (deliveries w) = [delivery]
      \<and> dlv_status delivery = ''delivered''
    \<longrightarrow> deliver_signal_to_subscriber post signal subscriber w = (Inr True, w)
        \<and> deliver_signal_to_subscriber post signal subscriber
             (snd (deliver_signal_to_subscriber post signal subscriber w)) = (Inr True, w))
   \<and> (webhook_url subscriber = []
    \<longrightarrow> deliver_signal_to_subscriber post signal subscriber w = (Inr False, w))"
proof (intro conjI impI)
  assume a: "webhook_url subscriber \<noteq> []
      \<and> filter (\<lambda>d. dlv_signal d = sig_id signal \<and> dlv_subscriber d = sub_id subscriber)
           (deliveries w) = [delivery]
      \<and> dlv_status delivery = ''delivered''"
  then have first: "deliver_signal_to_subscriber post signal subscriber w = (Inr True, w)"
    using already_delivered [where subscriber = subscriber and signal = signal and w = w
        and delivery = delivery and post = post]
    by blast
  then show "deliver_signal_to_subscriber post signal subscriber w = (Inr True, w)" .
  from first show "deliver_signal_to_subscriber post signal subscriber
             (snd (deliver_signal_to_subscriber post signal subscriber w)) = (Inr True, w)"
    by simp
next
  assume "webhook_url subscriber = []"
  then show "deliver_signal_to_subscriber post signal subscriber w = (Inr False, w)"
    by (rule no_webhook_url)
qed

theorem C5_idempotent_delivery_witness:
  "deliver_signal_to_subscriber always_500 sample_signal sample_subscriber delivered_world
     = (Inr True, delivered_world)
   \<and> deliver_signal_to_subscriber always_500 sample_signal sample_subscriber
       (snd (deliver_signal_to_subscriber always_500 sample_signal sample_subscriber
               delivered_world))
     = (Inr True, delivered_world)
   \<and> http_log (snd (deliver_signal_to_subscriber always_500 sample_signal sample_subscriber
         delivered_world)) = []
   \<and> deliver_signal_to_subscriber always_500 sample_signal
        (sample_subscriber\<lparr>webhook_url := ''''\<rparr>) delivered_world
     = (Inr False, delivered_world)"
proof -
  have row: "filter (\<lambda>d. dlv_signal d = sig_id sample_signal
                        \<and> dlv_subscriber d = sub_id sample_subscriber)
               (deliveries delivered_world) =
             [sample_delivery\<lparr>dlv_status := ''delivered'', delivery_attempts := 1,
                              last_attempt := Some 900, delivered_at := Some 900\<rparr>]"
    by (simp add: delivered_world_def sample_world_def sample_delivery_def sample_signal_def
        sample_subscriber_def)
  have url: "webhook_url sample_subscriber \<noteq> []" by (simp add: sample_subscriber_def)
  have log: "http_log delivered_world = []" by (simp add: delivered_world_def sample_world_def)
  from C5_idempotent_delivery [where subscriber = sample_subscriber and signal = sample_signal
      and w = delivered_world and post = always_500
      and delivery = "sample_delivery\<lparr>dlv_status := ''delivered'', delivery_attempts := 1,
                              last_attempt := Some 900, delivered_at := Some 900\<rparr>"] row url
  have a: "deliver_signal_to_subscriber always_500 sample_signal sample_subscriber
             delivered_world = (Inr True, delivered_world)"
    by simp
  from C5_idempotent_delivery [where subscriber = "sample_subscriber\<lparr>webhook_url := ''''\<rparr>"
      and signal = sample_signal and w = delivered_world and post = always_500]
  have b: "deliver_signal_to_subscriber always_500 sample_signal
        (sample_subscriber\<lparr>webhook_url := ''''\<rparr>) delivered_world
     = (Inr False, delivered_world)"
    by simp
  from a b log show ?thesis by simp
qed

section \<open>Delivery to all subscribers\<close>

lemma Q_unbound: "resolve_global ''Q'' = Inl NameError"
  by (simp add: resolve_global_def module_globals_def)

lemma deliver_to_all_raises:
  "deliver_signal_to_all_subscribers post signal w = (Inl NameError, w)"
  by (simp add: deliver_signal_to_all_subscribers_def filter_by_ticker_def instance_truthy_def
      Q_unbound Let_def)

text \<open>
  C2 does not hold of the code: the ticker filter is built with \<open>Q\<close>, a name the module
  never imports, so the call raises NameError before any subscriber is delivered to. Here
  the subscriber is active, has a webhook URL, empty allowlists and the threshold 0.5, the
  signal has confidence 0.9, and yet no delivery is attempted: the state is unchanged.
\<close>

theorem C2_no_delivery_attempted:
  "sub_status sample_subscriber = ''active''
   \<and> webhook_url sample_subscriber \<noteq> []
   \<and> subscribed_tickers sample_subscriber = []
   \<and> signal_types sample_subscriber = []
   \<and> min_confidence_threshold sample_subscriber = 0.5
   \<and> confidence sample_signal = 0.9
   \<and> subscribers sample_world = [sample_subscriber]
   \<and> deliver_signal_to_all_subscribers always_500 sample_signal sample_world
      = (Inl NameError, sample_world)"
  by (simp add: deliver_to_all_raises sample_subscriber_def sample_signal_def sample_world_def)

end
